theory Spec2Isabelle
  imports Complex_Main "HOL-Library.AList"
begin

section \<open>Go values used by the provider\<close>

text \<open>
  A Go slice is either \<^verbatim>\<open>nil\<close> or a sequence of elements; \<^verbatim>\<open>len\<close>, \<^verbatim>\<open>range\<close> and
  \<^verbatim>\<open>append\<close> treat the nil slice as a sequence of length 0, but the two are different
  values (\<^verbatim>\<open>s == nil\<close>). \<open>None\<close> is the nil slice, \<open>Some xs\<close> a non-nil slice.
\<close>

type_synonym 'a slice = "'a list option"

definition elems :: "'a slice \<Rightarrow> 'a list" where
  "elems s = (case s of None \<Rightarrow> [] | Some xs \<Rightarrow> xs)"

definition len :: "'a slice \<Rightarrow> nat" where
  "len s = length (elems s)"

text \<open>\<^verbatim>\<open>append(s, x)\<close>: the result is never nil.\<close>

definition append_slice :: "'a slice \<Rightarrow> 'a \<Rightarrow> 'a slice" where
  "append_slice s x = Some (elems s @ [x])"

text \<open>
  A Go map with string keys is either \<^verbatim>\<open>nil\<close> (\<open>None\<close>) or a finite set of entries with
  distinct keys. Go leaves the order in which \<^verbatim>\<open>range\<close> visits a map unspecified; the
  list of entries of a map that is iterated stands for the order in which that iteration
  visits them, so every statement about \<open>entries m\<close> holds for every visiting order.
\<close>

type_synonym 'v gomap = "(string \<times> 'v) list option"

definition entries :: "'v gomap \<Rightarrow> (string \<times> 'v) list" where
  "entries m = (case m of None \<Rightarrow> [] | Some es \<Rightarrow> es)"

text \<open>\<^verbatim>\<open>make(map[string]T)\<close>: a non-nil map without entries.\<close>

definition make_map :: "'v gomap" where
  "make_map = Some []"

text \<open>
  A run-time panic is the only way in which a Go function without an error result can
  fail; it is a value of the model.
\<close>

datatype 'a res = Ok 'a | Panic string

definition and_then :: "'a res \<Rightarrow> ('a \<Rightarrow> 'b res) \<Rightarrow> 'b res" where
  "and_then r k = (case r of Panic p \<Rightarrow> Panic p | Ok v \<Rightarrow> k v)"

text \<open>\<^verbatim>\<open>m[k] = v\<close>: a store into a nil map panics.\<close>

definition map_store :: "'v gomap \<Rightarrow> string \<Rightarrow> 'v \<Rightarrow> 'v gomap res" where
  "map_store m k v =
     (case m of
        None \<Rightarrow> Panic ''assignment to entry in nil map''
      | Some es \<Rightarrow> Ok (Some (AList.update k v es)))"

text \<open>
  \<^verbatim>\<open>for _, x := range xs { body }\<close> over the elements in order, where the body updates the
  loop-carried variable; a panic in the body ends the loop.
\<close>

fun range_loop :: "'a list \<Rightarrow> 'r \<Rightarrow> ('a \<Rightarrow> 'r \<Rightarrow> 'r res) \<Rightarrow> 'r res" where
  "range_loop [] r body = Ok r"
| "range_loop (x # xs) r body =
     (case body x r of Panic p \<Rightarrow> Panic p | Ok r' \<Rightarrow> range_loop xs r' body)"

section \<open>The ticket and its nested records\<close>

text \<open>
  The structs of the data source. A field \<^verbatim>\<open>F\<close> of struct \<^verbatim>\<open>S\<close> is the record field
  \<open>S_F\<close>, because several structs share field names (\<^verbatim>\<open>ID\<close>, \<^verbatim>\<open>Type\<close>, \<^verbatim>\<open>Author\<close>).
  Go's \<^verbatim>\<open>int\<close> and \<^verbatim>\<open>float64\<close> fields are only copied, never computed with; they are
  \<open>int\<close> and \<open>real\<close>. A \<^verbatim>\<open>*string\<close> field is a \<open>string option\<close>.
\<close>

record User =
  User_ID :: string
  User_Email :: string
  User_UserPrincipalName :: string
  User_DisplayName :: string
  User_Roles :: "string slice"

record Participant =
  Participant_UserInfo :: User
  Participant_Role :: string

record Comment =
  Comment_ID :: string
  Comment_Createdat :: string
  Comment_Modifiedat :: string
  Comment_Author :: User
  Comment_Content :: string
  Comment_Loginuser :: User
  Comment_Iseditable :: bool
  Comment_Iseditmode :: bool
  Comment_Contentcopy :: string

record Action =
  Action_ActionName :: string
  Action_RequiredProperties :: "string slice"
  Action_Type :: string
  Action_MinNumOfCatalogItems :: int

record InvoicePeriod =
  InvoicePeriod_InvoicePeriod :: string
  InvoicePeriod_ActualCost :: real
  InvoicePeriod_StartDate :: string
  InvoicePeriod_EndDate :: string

record BillingItem =
  BillingItem_ID :: string
  BillingItem_PartitionKey :: string
  BillingItem_SubscriptionName :: string
  BillingItem_InvoicePeriods :: "InvoicePeriod gomap"

record Change =
  Change_PropertyName :: string
  Change_OldValue :: "string gomap"
  Change_NewValue :: "string gomap"

record HistoryItem =
  HistoryItem_Date :: string
  HistoryItem_Author :: "User slice"
  HistoryItem_Changes :: "Change slice"

record CatalogField =
  CatalogField_Key :: string
  CatalogField_Label :: string
  CatalogField_Value :: string
  CatalogField_IsMandatory :: bool
  CatalogField_LookupFunction :: "string option"
  CatalogField_LookupValues :: "string slice"
  CatalogField_HintValue :: "string option"
  CatalogField_InputType :: "string option"
  CatalogField_InputFormat :: "string option"
  CatalogField_EnableToggleBy :: "string option"
  CatalogField_Disabled :: "string option"

record CatalogItem =
  CatalogItem_Name :: string
  CatalogItem_ResourceName :: string
  CatalogItem_Label :: string
  CatalogItem_CatalogItemDisclaimer :: "string option"
  CatalogItem_CatalogItemCloudPlatform :: string
  CatalogItem_TicketTypes :: "string slice"
  CatalogItem_Active :: bool
  CatalogItem_CatalogItemVersion :: int
  CatalogItem_CatalogItemCreated :: string
  CatalogItem_CatalogItemApproved :: string
  CatalogItem_CatalogItemApprovedBy :: string
  CatalogItem_CatalogItemIcon :: "string option"
  CatalogItem_CatalogFields :: "CatalogField slice"
  CatalogItem_Variables :: "string gomap"
  CatalogItem_ResourceContractName :: "string option"
  CatalogItem_ResourceContainerName :: "string option"

record Attachment =
  Attachment_URL :: string
  Attachment_UploadDateTime :: string
  Attachment_UploadedBy :: "User slice"
  Attachment_Filename :: string

record ClarityCode =
  ClarityCode_Code :: string
  ClarityCode_Description :: string
  ClarityCode_CostCenter :: string
  ClarityCode_Emails :: "string slice"
  ClarityCode_Tower :: string

record Ticket =
  Ticket_ID :: string
  Ticket_TicketNo :: int
  Ticket_Title :: string
  Ticket_Description :: string
  Ticket_Status :: string
  Ticket_SubStatus :: string
  Ticket_StatusChangedAt :: string
  Ticket_CreatedAt :: string
  Ticket_CreatedBy :: User
  Ticket_ChangedBy :: User
  Ticket_ClarityCode :: ClarityCode
  Ticket_Participants :: "Participant slice"
  Ticket_Comments :: "Comment slice"
  Ticket_Attachments :: "Attachment slice"
  Ticket_BillingItems :: "BillingItem slice"
  Ticket_HistoryItems :: "HistoryItem slice"
  Ticket_ValidActions :: "Action slice"
  Ticket_EditableProperties :: "string slice"
  Ticket_MandatoryProperties :: "string slice"
  Ticket_ETag :: string
  Ticket_Type :: string
  Ticket_ServiceProvider :: string
  Ticket_CloudPlatform :: string
  Ticket_CatalogItems :: "CatalogItem slice"

text \<open>
  A value of type \<^verbatim>\<open>interface{}\<close>, as the flatteners and the read operation build them:
  scalars, a \<^verbatim>\<open>[]string\<close>, a \<^verbatim>\<open>User\<close> struct or a \<^verbatim>\<open>[]Participant\<close> handed over as they
  are, a \<^verbatim>\<open>[]interface{}\<close> and a \<^verbatim>\<open>map[string]interface{}\<close>. A map literal is a
  non-nil map with the entries in the order in which the literal lists them.
\<close>

datatype Value =
    VString string
  | VInt int
  | VBool bool
  | VFloat real
  | VStrings "string slice"
  | VUser User
  | VParticipants "Participant slice"
  | VList "Value slice"
  | VMap "Value gomap"

section \<open>The flatteners\<close>

text \<open>The map literal that \<^verbatim>\<open>flattenUsers\<close> appends for one user.\<close>

definition userAttrs :: "User \<Rightarrow> Value res" where
  "userAttrs user =
     Ok (VMap (Some
       [(''email'', VString (User_Email user)),
        (''userprincipalname'', VString (User_UserPrincipalName user)),
        (''id'', VString (User_ID user)),
        (''displayname'', VString (User_DisplayName user)),
        (''roles'', VStrings (User_Roles user))]))"

definition flattenUsers :: "User slice \<Rightarrow> Value slice res" where
  "flattenUsers users =
     range_loop (elems users) None
       (\<lambda>user result. and_then (userAttrs user) (\<lambda>m. Ok (append_slice result m)))"

definition commentAttrs :: "Comment \<Rightarrow> Value res" where
  "commentAttrs comment =
     Ok (VMap (Some
       [(''id'', VString (Comment_ID comment)),
        (''createdat'', VString (Comment_Createdat comment)),
        (''modifiedat'', VString (Comment_Modifiedat comment)),
        (''author'', VUser (Comment_Author comment)),
        (''content'', VString (Comment_Content comment)),
        (''loginuser'', VUser (Comment_Loginuser comment)),
        (''iseditable'', VBool (Comment_Iseditable comment)),
        (''iseditmode'', VBool (Comment_Iseditmode comment)),
        (''contentcopy'', VString (Comment_Contentcopy comment))]))"

definition flattenComments :: "Comment slice \<Rightarrow> Value slice res" where
  "flattenComments comments =
     range_loop (elems comments) None
       (\<lambda>comment result. and_then (commentAttrs comment) (\<lambda>m. Ok (append_slice result m)))"

definition attachmentAttrs :: "Attachment \<Rightarrow> Value res" where
  "attachmentAttrs attachment =
     and_then (flattenUsers (Attachment_UploadedBy attachment)) (\<lambda>uploadedby.
     Ok (VMap (Some
       [(''url'', VString (Attachment_URL attachment)),
        (''uploaddatetime'', VString (Attachment_UploadDateTime attachment)),
        (''uploadedby'', VList uploadedby),
        (''filename'', VString (Attachment_Filename attachment))])))"

definition flattenAttachments :: "Attachment slice \<Rightarrow> Value slice res" where
  "flattenAttachments attachments =
     range_loop (elems attachments) None
       (\<lambda>attachment result.
          and_then (attachmentAttrs attachment) (\<lambda>m. Ok (append_slice result m)))"

text \<open>
  The map literal that \<^verbatim>\<open>flattenInvoicePeriods\<close> appends for one entry of the map: the
  key of the entry becomes the field \<^verbatim>\<open>invoiceperiod\<close>; the \<^verbatim>\<open>InvoicePeriod\<close> field of the
  entry's value is not read.
\<close>

definition invoicePeriodAttrs :: "string \<Rightarrow> InvoicePeriod \<Rightarrow> Value res" where
  "invoicePeriodAttrs key period =
     Ok (VMap (Some
       [(''invoiceperiod'', VString key),
        (''actualcost'', VFloat (InvoicePeriod_ActualCost period)),
        (''startdate'', VString (InvoicePeriod_StartDate period)),
        (''enddate'', VString (InvoicePeriod_EndDate period))]))"

definition flattenInvoicePeriods :: "InvoicePeriod gomap \<Rightarrow> Value slice res" where
  "flattenInvoicePeriods invoicePeriods =
     range_loop (entries invoicePeriods) None
       (\<lambda>(key, period) result.
          and_then (invoicePeriodAttrs key period) (\<lambda>m. Ok (append_slice result m)))"

definition billingItemAttrs :: "BillingItem \<Rightarrow> Value res" where
  "billingItemAttrs item =
     and_then (flattenInvoicePeriods (BillingItem_InvoicePeriods item)) (\<lambda>invoiceperiods.
     Ok (VMap (Some
       [(''id'', VString (BillingItem_ID item)),
        (''partitionkey'', VString (BillingItem_PartitionKey item)),
        (''subscriptionname'', VString (BillingItem_SubscriptionName item)),
        (''invoiceperiods'', VList invoiceperiods)])))"

definition flattenBillingItems :: "BillingItem slice \<Rightarrow> Value slice res" where
  "flattenBillingItems billingItems =
     range_loop (elems billingItems) None
       (\<lambda>item result. and_then (billingItemAttrs item) (\<lambda>m. Ok (append_slice result m)))"

text \<open>
  \<^verbatim>\<open>flattenStringMap\<close> makes a map and stores every entry of its argument into it.
\<close>

definition flattenStringMap :: "string gomap \<Rightarrow> Value gomap res" where
  "flattenStringMap m =
     range_loop (entries m) make_map
       (\<lambda>(k, v) flattened. map_store flattened k (VString v))"

definition changeAttrs :: "Change \<Rightarrow> Value res" where
  "changeAttrs change =
     and_then (flattenStringMap (Change_OldValue change)) (\<lambda>oldvalue.
     and_then (flattenStringMap (Change_NewValue change)) (\<lambda>newvalue.
     Ok (VMap (Some
       [(''propertyname'', VString (Change_PropertyName change)),
        (''oldvalue'', VMap oldvalue),
        (''newvalue'', VMap newvalue)]))))"

definition flattenChanges :: "Change slice \<Rightarrow> Value slice res" where
  "flattenChanges changes =
     range_loop (elems changes) None
       (\<lambda>change result. and_then (changeAttrs change) (\<lambda>m. Ok (append_slice result m)))"

definition historyItemAttrs :: "HistoryItem \<Rightarrow> Value res" where
  "historyItemAttrs historyItem =
     and_then (flattenUsers (HistoryItem_Author historyItem)) (\<lambda>author.
     and_then (flattenChanges (HistoryItem_Changes historyItem)) (\<lambda>changes.
     Ok (VMap (Some
       [(''date'', VString (HistoryItem_Date historyItem)),
        (''author'', VList author),
        (''changes'', VList changes)]))))"

definition flattenHistoryItems :: "HistoryItem slice \<Rightarrow> Value slice res" where
  "flattenHistoryItems historyItems =
     range_loop (elems historyItems) None
       (\<lambda>historyItem result.
          and_then (historyItemAttrs historyItem) (\<lambda>m. Ok (append_slice result m)))"

definition flattenStringList :: "string slice \<Rightarrow> Value slice res" where
  "flattenStringList list =
     range_loop (elems list) None
       (\<lambda>item result. Ok (append_slice result (VString item)))"

definition actionAttrs :: "Action \<Rightarrow> Value res" where
  "actionAttrs action =
     and_then (flattenStringList (Action_RequiredProperties action)) (\<lambda>requiredproperties.
     Ok (VMap (Some
       [(''actionname'', VString (Action_ActionName action)),
        (''requiredproperties'', VList requiredproperties),
        (''type'', VString (Action_Type action)),
        (''minnumofcatalogitems'', VInt (Action_MinNumOfCatalogItems action))])))"

definition flattenActions :: "Action slice \<Rightarrow> Value slice res" where
  "flattenActions actions =
     range_loop (elems actions) None
       (\<lambda>action result. and_then (actionAttrs action) (\<lambda>m. Ok (append_slice result m)))"

section \<open>The process-wide logger\<close>

text \<open>
  The log file as this process sees it: the lines written through the handle (the file is
  opened for appending) and whether the handle has been closed. A line is the text that
  \<^verbatim>\<open>Println\<close> formats from its operands, which it separates by one space; the prefix,
  date, time and source position that \<^verbatim>\<open>log.Logger\<close> puts before it are left out.
\<close>

record File =
  File_lines :: "string list"
  File_closed :: bool

text \<open>
  The \<^verbatim>\<open>Logger\<close> struct: the embedded \<^verbatim>\<open>*log.Logger\<close> writes to the same file that the
  field \<^verbatim>\<open>file\<close> points to. The mutex serialises concurrent callers and has no
  counterpart in this sequential model.
\<close>

record Logger =
  Logger_file :: "File option"

text \<open>
  The state of the process outside the resource data: the package variables
  \<^verbatim>\<open>logInstance\<close> and \<^verbatim>\<open>once\<close>, and what was printed on standard output.
\<close>

record Proc =
  logInstance :: "Logger option"
  once_done :: bool
  stdout :: "string list"

text \<open>
  A write to a nil or closed file returns an error, which \<^verbatim>\<open>log.Logger\<close> drops.
\<close>

definition logger_Println :: "string \<Rightarrow> Logger \<Rightarrow> Logger" where
  "logger_Println line l =
     (case Logger_file l of
        None \<Rightarrow> l
      | Some f \<Rightarrow>
          if File_closed f then l
          else l\<lparr>Logger_file := Some (f\<lparr>File_lines := File_lines f @ [line]\<rparr>)\<rparr>)"

text \<open>
  \<^verbatim>\<open>NewLogger\<close>; \<open>open_err\<close> is the error of \<^verbatim>\<open>os.OpenFile\<close> (\<open>None\<close> when the file
  opens). The function given to \<^verbatim>\<open>once.Do\<close> runs in the first call only, also when it
  returns early. The result is the pair of the logger and the error.
\<close>

definition NewLogger :: "string option \<Rightarrow> bool \<Rightarrow> Proc \<Rightarrow> (Logger option \<times> string option) \<times> Proc" where
  "NewLogger open_err debugEnabled p =
     (let p1 =
        (if once_done p then p
         else
           (case open_err of
              Some err \<Rightarrow>
                p\<lparr>once_done := True, stdout := stdout p @ [''Error opening file: '' @ err]\<rparr>
            | None \<Rightarrow>
                (let l = \<lparr>Logger_file = Some \<lparr>File_lines = [], File_closed = False\<rparr>\<rparr>
                 in p\<lparr>once_done := True,
                      logInstance :=
                        Some (if debugEnabled then logger_Println ''Logger initialized'' l else l)\<rparr>)))
      in case logInstance p1 of
           None \<Rightarrow> ((None, Some ''logger not initialized''), p1)
         | Some l \<Rightarrow> ((Some l, None), p1))"

definition Debug :: "string \<Rightarrow> Proc \<Rightarrow> Proc" where
  "Debug message p =
     (case logInstance p of
        None \<Rightarrow> p
      | Some l \<Rightarrow> p\<lparr>logInstance := Some (logger_Println (''DEBUG:  '' @ message) l)\<rparr>)"

definition Info :: "string \<Rightarrow> Proc \<Rightarrow> Proc" where
  "Info message p =
     (case logInstance p of
        None \<Rightarrow> p
      | Some l \<Rightarrow> p\<lparr>logInstance := Some (logger_Println (''INFO:  '' @ message) l)\<rparr>)"

definition Error :: "string \<Rightarrow> Proc \<Rightarrow> Proc" where
  "Error message p =
     (case logInstance p of
        None \<Rightarrow> p
      | Some l \<Rightarrow> p\<lparr>logInstance := Some (logger_Println (''ERROR:  '' @ message) l)\<rparr>)"

definition Close :: "Proc \<Rightarrow> Proc" where
  "Close p =
     (case logInstance p of
        None \<Rightarrow> p
      | Some l \<Rightarrow>
          (case Logger_file l of
             None \<Rightarrow> p
           | Some f \<Rightarrow> p\<lparr>logInstance := Some (l\<lparr>Logger_file := Some (f\<lparr>File_closed := True\<rparr>)\<rparr>)\<rparr>))"

section \<open>Provider configuration\<close>

text \<open>
  How a call ends: it returns, the process exits (\<^verbatim>\<open>log.Fatal\<close> prints and calls
  \<^verbatim>\<open>os.Exit(1)\<close>; deferred calls do not run), or the goroutine panics.
\<close>

datatype 'a outcome = Returned 'a | Exited string | Panicked string

text \<open>The credential of the Azure identity library, as the values it was made from.\<close>

record Credential =
  Credential_tenantID :: string
  Credential_clientID :: string
  Credential_clientSecret :: string

text \<open>
  \<^verbatim>\<open>CloudportalAPIClient\<close>. The field \<^verbatim>\<open>Client\<close> is a fresh \<^verbatim>\<open>http.Client\<close> without
  settings; its \<^verbatim>\<open>Do\<close> is a function of the environment below. A nil \<^verbatim>\<open>aziclient\<close>
  is \<open>None\<close>.
\<close>

record CloudportalAPIClient =
  BaseURL :: string
  APIKey :: string
  aziclient :: "Credential option"
  isdebug :: bool
  tenantID :: string

definition NewCloudportalAPIClient ::
  "Credential option \<Rightarrow> string \<Rightarrow> string \<Rightarrow> string \<Rightarrow> bool \<Rightarrow> CloudportalAPIClient" where
  "NewCloudportalAPIClient azidentity apiKey baseURL tenID debuginfo =
     \<lparr>BaseURL = baseURL, APIKey = apiKey, aziclient = azidentity,
      isdebug = debuginfo, tenantID = tenID\<rparr>"

text \<open>
  The provider block as \<^verbatim>\<open>d.Get\<close> reads it; the provider schema makes every one of the
  six settings required and fixes its type.
\<close>

record ProviderConfig =
  api_key :: string
  base_url :: string
  debug_info :: bool
  clientID :: string
  clientSecret :: string
  cfg_tenantID :: string

text \<open>
  The answers of the world outside the repository, as functions of what the code hands
  over: opening the log file, the constructor of the credential (tenant, client, secret),
  \<^verbatim>\<open>http.NewRequest\<close> for a URL (its error, if any), \<^verbatim>\<open>GetToken\<close> for a credential and
  scopes, \<^verbatim>\<open>Client.Do\<close>, \<^verbatim>\<open>gzip.NewReader\<close>, and \<^verbatim>\<open>json.Unmarshal\<close> into a zero
  \<^verbatim>\<open>Ticket\<close> (its error, if any, and the ticket as the call leaves it). The last one
  is the SDK's own check of a value handed to \<^verbatim>\<open>d.Set\<close> below its top level (the
  elements of a list against the nested schema): whether it finds no fault there.
\<close>

text \<open>
  An \<^verbatim>\<open>io.Reader\<close> as \<^verbatim>\<open>io.ReadAll\<close> drains it: the bytes it yields, and the error, if
  any, that ends the reading (\<^verbatim>\<open>ReadAll\<close> returns both).
\<close>

record Reader =
  Reader_data :: string
  Reader_err :: "string option"

record Request =
  Request_Method :: string
  Request_URL :: string
  Request_Header :: "(string \<times> string) list"

record Response =
  Response_StatusCode :: int
  Response_Status :: string
  Response_Header :: "(string \<times> string) list"
  Response_Body :: Reader

record Env =
  open_err :: "string option"
  NewClientSecretCredential :: "string \<Rightarrow> string \<Rightarrow> string \<Rightarrow> string + Credential"
  NewRequest :: "string \<Rightarrow> string option"
  GetToken :: "Credential \<Rightarrow> string list \<Rightarrow> string + string"
  Do :: "Request \<Rightarrow> string + Response"
  gzip_NewReader :: "Reader \<Rightarrow> string + Reader"
  json_Unmarshal :: "string \<Rightarrow> string option \<times> Ticket"
  Set_accepts :: "string \<Rightarrow> Value \<Rightarrow> bool"

text \<open>
  \<^verbatim>\<open>providerConfigure\<close>. The result of a returning call is the pair of the client
  (\<open>None\<close> for nil) and the error (\<open>None\<close> for nil). \<^verbatim>\<open>log.Fatal\<close> formats its operands
  like \<^verbatim>\<open>Print\<close>, without a space after a string operand.
\<close>

definition providerConfigure ::
  "Env \<Rightarrow> ProviderConfig \<Rightarrow> Proc \<Rightarrow> (CloudportalAPIClient option \<times> string option) outcome \<times> Proc" where
  "providerConfigure env d p =
     (let apiKey = api_key d; baseURL = base_url d; debugInfo = debug_info d;
          (fatal, p0) =
            (if debugInfo then
               (case NewLogger (open_err env) True p of
                  ((_, Some err), p') \<Rightarrow> (Some err, p')
                | ((_, None), p') \<Rightarrow> (None, p'))
             else (None, p))
      in case fatal of
           Some err \<Rightarrow> (Exited (''Error initializing logger:'' @ err), p0)
         | None \<Rightarrow>
             (let p1 = Info ''start'' p0
              in if apiKey = [] \<or> baseURL = [] then
                   (Returned (None, Some ''API key and base URL must be provided''),
                    Error ''API key and base URL must be provided'' p1)
                 else
                   (let clientId = clientID d; secret = clientSecret d; tenant = cfg_tenantID d
                    in case NewClientSecretCredential env tenant clientId secret of
                         Inl err \<Rightarrow>
                           (Returned
                              (Some (NewCloudportalAPIClient None apiKey baseURL tenant debugInfo),
                               None),
                            Error err p1)
                       | Inr client \<Rightarrow>
                           (Returned
                              (Some (NewCloudportalAPIClient (Some client) apiKey baseURL tenant
                                       debugInfo),
                               None),
                            p1))))"

section \<open>The ticket data source\<close>

text \<open>
  The names that \<^verbatim>\<open>TicketSchema\<close> declares for the data source, in the order of the
  schema literal, each with the type the schema gives it.
\<close>

datatype ValueType = TypeString | TypeInt | TypeList

definition TicketSchema :: "(string \<times> ValueType) list" where
  "TicketSchema =
     [(''id'', TypeString), (''ticketno'', TypeInt), (''title'', TypeString),
      (''description'', TypeString), (''status'', TypeString), (''substatus'', TypeString),
      (''statuschangedat'', TypeString), (''createdat'', TypeString),
      (''createdby'', TypeList), (''changedby'', TypeList), (''claritycode'', TypeList),
      (''participants'', TypeList), (''comments'', TypeList), (''attachments'', TypeList),
      (''billingitems'', TypeList), (''historyitems'', TypeList),
      (''validactions'', TypeList), (''editableproperties'', TypeString),
      (''mandatoryproperties'', TypeString), (''etag'', TypeString), (''type'', TypeString),
      (''serviceprovider'', TypeString), (''cloudplatform'', TypeString),
      (''catalogitems'', TypeList)]"

text \<open>
  The resource data \<^verbatim>\<open>d\<close> of the plugin SDK, as far as the read operation uses it: the
  configured \<^verbatim>\<open>id\<close> that \<^verbatim>\<open>d.Get\<close> reads; the calls of \<^verbatim>\<open>d.Set\<close> in the order in which
  they were made (attribute name and value handed over); the state, which holds the
  attributes that \<^verbatim>\<open>d.Set\<close> has written; and the identifier given to \<^verbatim>\<open>d.SetId\<close>.
\<close>

record ResourceData =
  rd_id :: string
  rd_calls :: "(string \<times> Value) list"
  rd_state :: "(string \<times> Value) list"
  rd_Id :: "string option"

text \<open>
  What the SDK checks first when a value is set: a \<^verbatim>\<open>TypeString\<close> attribute takes a
  string, a \<^verbatim>\<open>TypeInt\<close> attribute an integer, and a \<^verbatim>\<open>TypeList\<close> attribute a slice; a
  struct is not a slice. A name that the schema does not declare takes nothing.
\<close>

fun kind_fits :: "ValueType \<Rightarrow> Value \<Rightarrow> bool" where
  "kind_fits TypeString (VString s) = True"
| "kind_fits TypeInt (VInt i) = True"
| "kind_fits TypeList (VList vs) = True"
| "kind_fits TypeList (VStrings ss) = True"
| "kind_fits TypeList (VParticipants ps) = True"
| "kind_fits t v = False"

definition fits_schema :: "string \<Rightarrow> Value \<Rightarrow> bool" where
  "fits_schema key v =
     (case map_of TicketSchema key of None \<Rightarrow> False | Some t \<Rightarrow> kind_fits t v)"

text \<open>
  \<^verbatim>\<open>d.Set(key, value)\<close>, with the result dropped as the source drops it. The SDK writes
  the value into the state when it fits the schema, and returns an error and writes
  nothing when it does not. \<open>accepts\<close> is the part of that check below the top level.
\<close>

definition d_Set ::
  "(string \<Rightarrow> Value \<Rightarrow> bool) \<Rightarrow> string \<Rightarrow> Value \<Rightarrow> ResourceData \<Rightarrow> ResourceData" where
  "d_Set accepts key v d =
     d\<lparr>rd_calls := rd_calls d @ [(key, v)],
       rd_state :=
         (if fits_schema key v \<and> accepts key v then AList.update key v (rd_state d)
          else rd_state d)\<rparr>"

definition d_SetId :: "string \<Rightarrow> ResourceData \<Rightarrow> ResourceData" where
  "d_SetId v d = d\<lparr>rd_Id := Some v\<rparr>"

text \<open>Request and response headers, with canonical names.\<close>

definition header_Set :: "string \<Rightarrow> string \<Rightarrow> (string \<times> string) list \<Rightarrow> (string \<times> string) list" where
  "header_Set k v h = AList.update k v h"

definition header_Add :: "string \<Rightarrow> string \<Rightarrow> (string \<times> string) list \<Rightarrow> (string \<times> string) list" where
  "header_Add k v h = h @ [(k, v)]"

definition header_Get :: "(string \<times> string) list \<Rightarrow> string \<Rightarrow> string" where
  "header_Get h k = (case map_of h k of None \<Rightarrow> [] | Some v \<Rightarrow> v)"

text \<open>The verb \<^verbatim>\<open>%d\<close> of \<^verbatim>\<open>fmt\<close> for an \<^verbatim>\<open>int\<close>.\<close>

fun dec_digits :: "nat \<Rightarrow> string" where
  "dec_digits n =
     (if n < 10 then [''0123456789'' ! n]
      else dec_digits (n div 10) @ [''0123456789'' ! (n mod 10)])"

declare dec_digits.simps [simp del]

definition fmt_d :: "int \<Rightarrow> string" where
  "fmt_d i = (if i < 0 then CHR ''-'' # dec_digits (nat (- i)) else dec_digits (nat i))"

text \<open>
  The conversion \<^verbatim>\<open>string(i)\<close> of an \<^verbatim>\<open>int\<close>: the UTF-8 encoding of the code point, and of
  U+FFFD when \<^verbatim>\<open>i\<close> is not a valid code point.
\<close>

definition utf8 :: "nat \<Rightarrow> string" where
  "utf8 n =
     (if n < 0x80 then [char_of n]
      else if n < 0x800 then [char_of (0xC0 + n div 0x40), char_of (0x80 + n mod 0x40)]
      else if n < 0x10000 then
        [char_of (0xE0 + n div 0x1000), char_of (0x80 + n div 0x40 mod 0x40),
         char_of (0x80 + n mod 0x40)]
      else
        [char_of (0xF0 + n div 0x40000), char_of (0x80 + n div 0x1000 mod 0x40),
         char_of (0x80 + n div 0x40 mod 0x40), char_of (0x80 + n mod 0x40)])"

definition rune_string :: "int \<Rightarrow> string" where
  "rune_string i =
     (if i < 0 \<or> 0x10FFFF < i \<or> (0xD800 \<le> i \<and> i \<le> 0xDFFF) then utf8 0xFFFD
      else utf8 (nat i))"

text \<open>The message of the panic that a method call through a nil pointer raises.\<close>

definition nil_dereference :: string where
  "nil_dereference = ''runtime error: invalid memory address or nil pointer dereference''"

text \<open>
  The request that the read operation builds: \<^verbatim>\<open>http.NewRequest("GET", url, nil)\<close> with
  the four headers set and the bearer token added.
\<close>

definition ticketRequest :: "string \<Rightarrow> string \<Rightarrow> Request" where
  "ticketRequest url token =
     \<lparr>Request_Method = ''GET'', Request_URL = url,
      Request_Header =
        header_Add ''Authorization'' (''Bearer '' @ token)
         (header_Set ''Connection'' ''keep-alive''
           (header_Set ''Accept-Language'' ''en-IN,en-GB;q=0.9,en;q=0.8,en-US;q=0.7''
             (header_Set ''Accept-Encoding'' ''gzip, deflate, br, zstd''
               (header_Set ''Accept'' ''application/json'' []))))\<rparr>"

text \<open>
  The deferred \<^verbatim>\<open>logger.Close()\<close> of the read operation: it is registered only in debug
  mode, and runs when the function returns or panics, not when the process exits.
\<close>

definition deferred_Close ::
  "bool \<Rightarrow> string option outcome \<times> ResourceData \<times> Proc
     \<Rightarrow> string option outcome \<times> ResourceData \<times> Proc" where
  "deferred_Close registered r =
     (case r of
        (Exited m, d, p) \<Rightarrow> (Exited m, d, p)
      | (out, d, p) \<Rightarrow> (out, d, if registered then Close p else p))"

text \<open>
  \<^verbatim>\<open>dataSourceTicketRead\<close>, in four parts that follow one another in the source. The
  result of a returning call is its error (\<open>None\<close> for nil); beside it stand the resource
  data and the process state as the call leaves them.

  The last part (from `Set values to the Terraform resource schema` to the end): the
  sixteen calls of \<^verbatim>\<open>d.Set\<close>, the flatteners evaluated one after the other as arguments,
  then \<^verbatim>\<open>d.SetId\<close> and \<^verbatim>\<open>return nil\<close>.
\<close>

definition dataSourceTicketRead_set ::
  "Env \<Rightarrow> Ticket \<Rightarrow> ResourceData \<Rightarrow> Proc \<Rightarrow> string option outcome \<times> ResourceData \<times> Proc" where
  "dataSourceTicketRead_set env ticket d p =
     (let d1 = d_Set (Set_accepts env) ''id'' (VString (Ticket_ID ticket)) d;
          d2 = d_Set (Set_accepts env) ''ticketno'' (VInt (Ticket_TicketNo ticket)) d1;
          d3 = d_Set (Set_accepts env) ''title'' (VString (Ticket_Title ticket)) d2;
          d4 = d_Set (Set_accepts env) ''description'' (VString (Ticket_Description ticket)) d3;
          d5 = d_Set (Set_accepts env) ''status'' (VString (Ticket_Status ticket)) d4;
          d6 = d_Set (Set_accepts env) ''substatus'' (VString (Ticket_SubStatus ticket)) d5;
          d7 = d_Set (Set_accepts env) ''statuschangedat'' (VString (Ticket_StatusChangedAt ticket)) d6;
          d8 = d_Set (Set_accepts env) ''createdat'' (VString (Ticket_CreatedAt ticket)) d7;
          d9 = d_Set (Set_accepts env) ''createdby'' (VUser (Ticket_CreatedBy ticket)) d8;
          d10 = d_Set (Set_accepts env) ''changedby'' (VUser (Ticket_ChangedBy ticket)) d9;
          d11 = d_Set (Set_accepts env) ''participants'' (VParticipants (Ticket_Participants ticket)) d10
      in case flattenComments (Ticket_Comments ticket) of
           Panic m \<Rightarrow> (Panicked m, d11, p)
         | Ok comments \<Rightarrow>
     (let d12 = d_Set (Set_accepts env) ''comments'' (VList comments) d11
      in case flattenAttachments (Ticket_Attachments ticket) of
           Panic m \<Rightarrow> (Panicked m, d12, p)
         | Ok attachments \<Rightarrow>
     (let d13 = d_Set (Set_accepts env) ''attachments'' (VList attachments) d12
      in case flattenBillingItems (Ticket_BillingItems ticket) of
           Panic m \<Rightarrow> (Panicked m, d13, p)
         | Ok billingitems \<Rightarrow>
     (let d14 = d_Set (Set_accepts env) ''billingitems'' (VList billingitems) d13
      in case flattenHistoryItems (Ticket_HistoryItems ticket) of
           Panic m \<Rightarrow> (Panicked m, d14, p)
         | Ok historyitems \<Rightarrow>
     (let d15 = d_Set (Set_accepts env) ''historyitems'' (VList historyitems) d14
      in case flattenActions (Ticket_ValidActions ticket) of
           Panic m \<Rightarrow> (Panicked m, d15, p)
         | Ok validactions \<Rightarrow>
     (let d16 = d_Set (Set_accepts env) ''validactions'' (VList validactions) d15
      in (Returned None, d_SetId (Ticket_ID ticket) d16, p)))))))"

text \<open>
  The middle part, for a response with status 200 (from `Check if the response is gzip
  encoded` to the call of \<^verbatim>\<open>json.Unmarshal\<close>). The errors of \<^verbatim>\<open>gzip.NewReader\<close>,
  \<^verbatim>\<open>io.ReadAll\<close> and \<^verbatim>\<open>json.Unmarshal\<close> are logged and the function goes on. When
  \<^verbatim>\<open>gzip.NewReader\<close> has failed, the reader is the nil \<^verbatim>\<open>*gzip.Reader\<close>, and
  \<^verbatim>\<open>io.ReadAll\<close> calls its \<^verbatim>\<open>Read\<close>, which dereferences the nil receiver.
\<close>

definition dataSourceTicketRead_body ::
  "Env \<Rightarrow> Response \<Rightarrow> ResourceData \<Rightarrow> Proc \<Rightarrow> string option outcome \<times> ResourceData \<times> Proc" where
  "dataSourceTicketRead_body env resp d p3 =
     (let (reader, p4) =
            (if header_Get (Response_Header resp) ''Content-Encoding'' = ''gzip'' then
               (case gzip_NewReader env (Response_Body resp) of
                  Inl err \<Rightarrow> (None, Error err p3)
                | Inr gzipReader \<Rightarrow> (Some gzipReader, p3))
             else (Some (Response_Body resp), p3))
      in case reader of
           None \<Rightarrow> (Panicked nil_dereference, d, p4)
         | Some r \<Rightarrow>
             (let bodyBytes = Reader_data r;
                  p5 = (case Reader_err r of Some err \<Rightarrow> Error err p4 | None \<Rightarrow> p4);
                  p6 = Debug bodyBytes p5;
                  (err, ticket) = json_Unmarshal env bodyBytes;
                  p7 = (case err of Some e \<Rightarrow> Error e p6 | None \<Rightarrow> p6)
              in dataSourceTicketRead_set env ticket d p7))"

text \<open>
  The part before it (from \<^verbatim>\<open>ticketID := d.Get("id")\<close> to the status check): the
  request, the token, the call. \<^verbatim>\<open>GetToken\<close> on a nil credential dereferences it.
\<close>

definition dataSourceTicketRead_request ::
  "Env \<Rightarrow> CloudportalAPIClient \<Rightarrow> ResourceData \<Rightarrow> Proc \<Rightarrow> string option outcome \<times> ResourceData \<times> Proc" where
  "dataSourceTicketRead_request env cred d p0 =
     (let ticketID = rd_id d;
          url = BaseURL cred @ ''/ticket/'' @ ticketID;
          p1 = Debug url p0
      in case NewRequest env url of
           Some err \<Rightarrow>
             (Returned (Some (''failed to create HTTP request: '' @ err)), d, Error err p1)
         | None \<Rightarrow>
      (case aziclient cred of
         None \<Rightarrow> (Panicked nil_dereference, d, p1)
       | Some azi \<Rightarrow>
      (case GetToken env azi [tenantID cred @ ''/.default''] of
         Inl err \<Rightarrow> (Exited (''failed to obtain a token: '' @ err), d, Error err p1)
       | Inr token \<Rightarrow>
      (let p2 = Debug (''Token : '' @ token) p1;
           req = ticketRequest url token
       in case Do env req of
            Inl err \<Rightarrow> (Returned (Some err), d, Error (''Send request : '' @ err) p2)
          | Inr resp \<Rightarrow>
      (let p3 = Debug (Response_Status resp) p2
       in if Response_StatusCode resp \<noteq> 200 then
            (Returned
               (Some (''API call failed with status '' @ fmt_d (Response_StatusCode resp)
                      @ '': '' @ Response_Status resp)),
             d,
             Error (''Response status code : '' @ rune_string (Response_StatusCode resp))
               (Error (''Response status : '' @ Response_Status resp) p3))
          else dataSourceTicketRead_body env resp d p3)))))"

text \<open>
  The whole: in debug mode the logger is initialised first, which ends the process when
  it fails, and its \<^verbatim>\<open>Close\<close> is deferred.
\<close>

definition dataSourceTicketRead ::
  "Env \<Rightarrow> CloudportalAPIClient \<Rightarrow> ResourceData \<Rightarrow> Proc \<Rightarrow> string option outcome \<times> ResourceData \<times> Proc" where
  "dataSourceTicketRead env cred d p =
     (let (fatal, p0) =
            (if isdebug cred then
               (case NewLogger (open_err env) True p of
                  ((_, Some err), p') \<Rightarrow> (Some err, p')
                | ((_, None), p') \<Rightarrow> (None, p'))
             else (None, p))
      in case fatal of
           Some err \<Rightarrow> (Exited (''Error initializing logger:'' @ err), d, p0)
         | None \<Rightarrow> deferred_Close (isdebug cred) (dataSourceTicketRead_request env cred d p0))"

text \<open>
  The attribute names that the read operation hands to \<^verbatim>\<open>d.Set\<close>, in the order of the
  calls.
\<close>

definition read_keys :: "string list" where
  "read_keys =
     [''id'', ''ticketno'', ''title'', ''description'', ''status'', ''substatus'',
      ''statuschangedat'', ''createdat'', ''createdby'', ''changedby'', ''participants'',
      ''comments'', ''attachments'', ''billingitems'', ''historyitems'', ''validactions'']"

section \<open>Concrete inputs\<close>

text \<open>The zero values of the structs, which \<^verbatim>\<open>var ticket Ticket\<close> starts from.\<close>

definition zero_User :: User where
  "zero_User =
     \<lparr>User_ID = [], User_Email = [], User_UserPrincipalName = [], User_DisplayName = [],
      User_Roles = None\<rparr>"

definition zero_Ticket :: Ticket where
  "zero_Ticket =
     \<lparr>Ticket_ID = [], Ticket_TicketNo = 0, Ticket_Title = [], Ticket_Description = [],
      Ticket_Status = [], Ticket_SubStatus = [], Ticket_StatusChangedAt = [],
      Ticket_CreatedAt = [], Ticket_CreatedBy = zero_User, Ticket_ChangedBy = zero_User,
      Ticket_ClarityCode =
        \<lparr>ClarityCode_Code = [], ClarityCode_Description = [], ClarityCode_CostCenter = [],
         ClarityCode_Emails = None, ClarityCode_Tower = []\<rparr>,
      Ticket_Participants = None, Ticket_Comments = None, Ticket_Attachments = None,
      Ticket_BillingItems = None, Ticket_HistoryItems = None, Ticket_ValidActions = None,
      Ticket_EditableProperties = None, Ticket_MandatoryProperties = None, Ticket_ETag = [],
      Ticket_Type = [], Ticket_ServiceProvider = [], Ticket_CloudPlatform = [],
      Ticket_CatalogItems = None\<rparr>"

text \<open>A process in which \<^verbatim>\<open>NewLogger\<close> has not been called.\<close>

definition fresh_Proc :: Proc where
  "fresh_Proc = \<lparr>logInstance = None, once_done = False, stdout = []\<rparr>"

text \<open>
  An environment in which the log file opens if \<open>log_err\<close> is \<open>None\<close>, the credential is
  made, the request is built, a token is issued, the server answers every request as
  \<open>answer\<close> says, the gzip header is invalid, decoding any body gives \<open>decoded\<close>, and
  the SDK finds no fault below the top level of a value that is set.
\<close>

definition example_Env ::
  "string option \<Rightarrow> string + Response \<Rightarrow> string option \<times> Ticket \<Rightarrow> Env" where
  "example_Env log_err answer decoded =
     \<lparr>open_err = log_err,
      NewClientSecretCredential =
        (\<lambda>tenant client secret.
           Inr \<lparr>Credential_tenantID = tenant, Credential_clientID = client,
                Credential_clientSecret = secret\<rparr>),
      NewRequest = (\<lambda>url. None),
      GetToken = (\<lambda>azi scopes. Inr ''token''),
      Do = (\<lambda>req. answer),
      gzip_NewReader = (\<lambda>r. Inl ''gzip: invalid header''),
      json_Unmarshal = (\<lambda>bodyBytes. decoded),
      Set_accepts = (\<lambda>key v. True)\<rparr>"

definition example_client :: CloudportalAPIClient where
  "example_client =
     \<lparr>BaseURL = ''https://portal.example/api'', APIKey = ''key'',
      aziclient =
        Some \<lparr>Credential_tenantID = ''tenant'', Credential_clientID = ''client'',
              Credential_clientSecret = ''secret''\<rparr>,
      isdebug = False, tenantID = ''tenant''\<rparr>"

definition example_data :: ResourceData where
  "example_data = \<lparr>rd_id = ''42'', rd_calls = [], rd_state = [], rd_Id = None\<rparr>"

definition response_404 :: Response where
  "response_404 =
     \<lparr>Response_StatusCode = 404, Response_Status = ''404 Not Found'', Response_Header = [],
      Response_Body = \<lparr>Reader_data = [], Reader_err = None\<rparr>\<rparr>"

text \<open>A response with status 200 and the given header and body.\<close>

definition response_200 :: "(string \<times> string) list \<Rightarrow> string \<Rightarrow> Response" where
  "response_200 header body =
     \<lparr>Response_StatusCode = 200, Response_Status = ''200 OK'', Response_Header = header,
      Response_Body = \<lparr>Reader_data = body, Reader_err = None\<rparr>\<rparr>"

text \<open>
  The ticket that the body
  \<^verbatim>\<open>{"id":"42","etag":"W/7","createdby":{"id":"creator"}}\<close> decodes to.
\<close>

definition example_Ticket :: Ticket where
  "example_Ticket =
     zero_Ticket\<lparr>Ticket_ID := ''42'', Ticket_ETag := ''W/7'',
                 Ticket_CreatedBy := zero_User\<lparr>User_ID := ''creator''\<rparr>\<rparr>"

definition example_body :: string where
  "example_body =
     ''{'' @ [CHR 0x22] @ ''id'' @ [CHR 0x22] @ '':'' @ [CHR 0x22] @ ''42'' @ [CHR 0x22]
     @ '','' @ [CHR 0x22] @ ''etag'' @ [CHR 0x22] @ '':'' @ [CHR 0x22] @ ''W/7'' @ [CHR 0x22]
     @ '','' @ [CHR 0x22] @ ''createdby'' @ [CHR 0x22] @ '':{'' @ [CHR 0x22] @ ''id''
     @ [CHR 0x22] @ '':'' @ [CHR 0x22] @ ''creator'' @ [CHR 0x22] @ ''}}''"

definition example_config :: "bool \<Rightarrow> ProviderConfig" where
  "example_config debug =
     \<lparr>api_key = ''key'', base_url = ''https://portal.example/api'', debug_info = debug,
      clientID = ''client'', clientSecret = ''secret'', cfg_tenantID = ''tenant''\<rparr>"

text \<open>
  Environments for single runs: the server answers 404; it answers 200 with a body that
  decodes; it answers 200 with a body that is not JSON, so that \<^verbatim>\<open>json.Unmarshal\<close>
  returns an error and leaves the ticket at its zero value; it answers 200 with
  \<^verbatim>\<open>Content-Encoding: gzip\<close> and a body without a gzip header; no token is issued; the
  log file cannot be opened; the credential cannot be made from an empty secret.
\<close>

definition env_404 :: Env where
  "env_404 = example_Env None (Inr response_404) (None, zero_Ticket)"

definition env_ok :: Env where
  "env_ok = example_Env None (Inr (response_200 [] example_body)) (None, example_Ticket)"

definition env_bad_json :: Env where
  "env_bad_json =
     example_Env None (Inr (response_200 [] ''not json''))
       (Some ''invalid character o in literal null (expecting u)'', zero_Ticket)"

definition env_bad_gzip :: Env where
  "env_bad_gzip =
     example_Env None (Inr (response_200 [(''Content-Encoding'', ''gzip'')] ''not gzip''))
       (None, example_Ticket)"

definition env_no_token :: Env where
  "env_no_token = env_ok\<lparr>GetToken := (\<lambda>azi scopes. Inl ''invalid client secret'')\<rparr>"

definition env_no_log :: Env where
  "env_no_log = example_Env (Some ''permission denied'') (Inr response_404) (None, zero_Ticket)"

definition env_no_credential :: Env where
  "env_no_credential =
     env_ok\<lparr>NewClientSecretCredential :=
              (\<lambda>tenant client secret.
                 if secret = [] then Inl ''secret cannot be empty''
                 else Inr \<lparr>Credential_tenantID = tenant, Credential_clientID = client,
                           Credential_clientSecret = secret\<rparr>)\<rparr>"








section \<open>The flatteners return on every input\<close>

lemma range_loop_append:
  assumes "\<And>x. \<exists>m. f x = Ok m"
  shows "\<exists>r. range_loop xs acc (\<lambda>x result. and_then (f x) (\<lambda>m. Ok (append_slice result m))) = Ok r
           \<and> map Ok (elems r) = map Ok (elems acc) @ map f xs
           \<and> (r = None \<longleftrightarrow> xs = [] \<and> acc = None)"
proof (induction xs arbitrary: acc)
  case Nil
  then show ?case by simp
next
  case (Cons x xs)
  from assms obtain m where m: "f x = Ok m" by blast
  from Cons.IH [of "append_slice acc m"] obtain r where
    r: "range_loop xs (append_slice acc m) (\<lambda>x result. and_then (f x) (\<lambda>m. Ok (append_slice result m))) = Ok r"
       "map Ok (elems r) = map Ok (elems (append_slice acc m)) @ map f xs"
       "(r = None \<longleftrightarrow> xs = [] \<and> append_slice acc m = None)"
    by blast
  show ?case
    using r m by (simp add: and_then_def append_slice_def elems_def)
qed

lemma flatten_loop:
  assumes "\<And>x. \<exists>m. f x = Ok m"
  shows "\<exists>r. range_loop (elems xs) None (\<lambda>x result. and_then (f x) (\<lambda>m. Ok (append_slice result m))) = Ok r
           \<and> map Ok (elems r) = map f (elems xs)
           \<and> (r = None \<longleftrightarrow> elems xs = [])"
  using range_loop_append [of f "elems xs" None, OF assms] by (simp add: elems_def)

lemma userAttrs_ok: "\<exists>m. userAttrs u = Ok m"
  by (simp add: userAttrs_def)

lemma commentAttrs_ok: "\<exists>m. commentAttrs c = Ok m"
  by (simp add: commentAttrs_def)

lemma invoicePeriodAttrs_ok: "\<exists>m. invoicePeriodAttrs k v = Ok m"
  by (simp add: invoicePeriodAttrs_def)

lemma flattenUsers_ok:
  "\<exists>r. flattenUsers us = Ok r \<and> map Ok (elems r) = map userAttrs (elems us) \<and> (r = None \<longleftrightarrow> elems us = [])"
  unfolding flattenUsers_def by (rule flatten_loop [OF userAttrs_ok])

lemma flattenComments_ok:
  "\<exists>r. flattenComments cs = Ok r \<and> map Ok (elems r) = map commentAttrs (elems cs) \<and> (r = None \<longleftrightarrow> elems cs = [])"
  unfolding flattenComments_def by (rule flatten_loop [OF commentAttrs_ok])

lemma attachmentAttrs_ok: "\<exists>m. attachmentAttrs a = Ok m"
  using flattenUsers_ok [of "Attachment_UploadedBy a"]
  by (auto simp: attachmentAttrs_def and_then_def)

lemma flattenAttachments_ok:
  "\<exists>r. flattenAttachments as = Ok r \<and> map Ok (elems r) = map attachmentAttrs (elems as) \<and> (r = None \<longleftrightarrow> elems as = [])"
  unfolding flattenAttachments_def by (rule flatten_loop [OF attachmentAttrs_ok])

lemma flattenInvoicePeriods_ok:
  "\<exists>r. flattenInvoicePeriods m = Ok r
     \<and> map Ok (elems r) = map (\<lambda>(key, period). invoicePeriodAttrs key period) (entries m)
     \<and> (r = None \<longleftrightarrow> entries m = [])"
proof -
  have "\<And>x. \<exists>m. (\<lambda>(key, period). invoicePeriodAttrs key period) x = Ok m"
    by (simp add: invoicePeriodAttrs_def split: prod.split)
  from range_loop_append [of "\<lambda>(key, period). invoicePeriodAttrs key period" "entries m" None, OF this]
  show ?thesis
    by (simp add: flattenInvoicePeriods_def elems_def case_prod_unfold)
qed

lemma billingItemAttrs_ok: "\<exists>m. billingItemAttrs b = Ok m"
  using flattenInvoicePeriods_ok [of "BillingItem_InvoicePeriods b"]
  by (auto simp: billingItemAttrs_def and_then_def)

lemma flattenBillingItems_ok:
  "\<exists>r. flattenBillingItems bs = Ok r \<and> map Ok (elems r) = map billingItemAttrs (elems bs) \<and> (r = None \<longleftrightarrow> elems bs = [])"
  unfolding flattenBillingItems_def by (rule flatten_loop [OF billingItemAttrs_ok])

lemma store_loop:
  "\<exists>r. range_loop es (Some acc) (\<lambda>(k, v) flattened. map_store flattened k (VString v)) = Ok (Some r)
      \<and> (es = [] \<longrightarrow> r = acc)"
proof (induction es arbitrary: acc)
  case Nil
  then show ?case by simp
next
  case (Cons e es)
  obtain k v where e: "e = (k, v)" by (cases e)
  from Cons.IH [of "AList.update k (VString v) acc"] show ?case
    by (auto simp: e map_store_def)
qed

lemma flattenStringMap_ok: "\<exists>r. flattenStringMap m = Ok (Some r) \<and> (entries m = [] \<longrightarrow> r = [])"
  unfolding flattenStringMap_def make_map_def by (rule store_loop)

lemma changeAttrs_ok: "\<exists>m. changeAttrs c = Ok m"
  using flattenStringMap_ok [of "Change_OldValue c"] flattenStringMap_ok [of "Change_NewValue c"]
  by (auto simp: changeAttrs_def and_then_def)

lemma flattenChanges_ok:
  "\<exists>r. flattenChanges cs = Ok r \<and> map Ok (elems r) = map changeAttrs (elems cs) \<and> (r = None \<longleftrightarrow> elems cs = [])"
  unfolding flattenChanges_def by (rule flatten_loop [OF changeAttrs_ok])

lemma historyItemAttrs_ok: "\<exists>m. historyItemAttrs h = Ok m"
  using flattenUsers_ok [of "HistoryItem_Author h"] flattenChanges_ok [of "HistoryItem_Changes h"]
  by (auto simp: historyItemAttrs_def and_then_def)

lemma flattenHistoryItems_ok:
  "\<exists>r. flattenHistoryItems hs = Ok r \<and> map Ok (elems r) = map historyItemAttrs (elems hs) \<and> (r = None \<longleftrightarrow> elems hs = [])"
  unfolding flattenHistoryItems_def by (rule flatten_loop [OF historyItemAttrs_ok])

lemma flattenStringList_ok:
  "\<exists>r. flattenStringList l = Ok r \<and> map Ok (elems r) = map (\<lambda>item. Ok (VString item)) (elems l)
     \<and> (r = None \<longleftrightarrow> elems l = [])"
proof -
  have "\<And>x. \<exists>m. (\<lambda>item. Ok (VString item)) x = Ok m" by simp
  from flatten_loop [of "\<lambda>item. Ok (VString item)" l, OF this]
  show ?thesis
    by (simp add: flattenStringList_def and_then_def)
qed

lemma actionAttrs_ok: "\<exists>m. actionAttrs a = Ok m"
  using flattenStringList_ok [of "Action_RequiredProperties a"]
  by (auto simp: actionAttrs_def and_then_def)

lemma flattenActions_ok:
  "\<exists>r. flattenActions as = Ok r \<and> map Ok (elems r) = map actionAttrs (elems as) \<and> (r = None \<longleftrightarrow> elems as = [])"
  unfolding flattenActions_def by (rule flatten_loop [OF actionAttrs_ok])



lemma ok_ex: "\<exists>r. F = Ok r \<and> Q r \<Longrightarrow> \<exists>r. F = Ok r"
  by blast


section \<open>Order and length\<close>



section \<open>Invoice periods\<close>

text \<open>
  C4. \<^verbatim>\<open>flattenInvoicePeriods\<close> produces one element for each entry of the map, in the
  order in which the iteration visits the entries, and the element carries the key of the
  entry as the field \<^verbatim>\<open>invoiceperiod\<close> beside the entry's \<^verbatim>\<open>actualcost\<close>, \<^verbatim>\<open>startdate\<close>
  and \<^verbatim>\<open>enddate\<close>. The map with the single key \<^verbatim>\<open>Jan-2024\<close>, cost 100.5 and the dates
  2024-01-01 and 2024-01-31 gives exactly one element with these four values, whatever
  the \<^verbatim>\<open>InvoicePeriod\<close> field of the decoded value holds.
\<close>

theorem flattenInvoicePeriods_entries:
  "(\<exists>r. flattenInvoicePeriods invoicePeriods = Ok r
       \<and> len r = length (entries invoicePeriods)
       \<and> elems r =
           map (\<lambda>(key, period).
                  VMap (Some [(''invoiceperiod'', VString key),
                              (''actualcost'', VFloat (InvoicePeriod_ActualCost period)),
                              (''startdate'', VString (InvoicePeriod_StartDate period)),
                              (''enddate'', VString (InvoicePeriod_EndDate period))]))
             (entries invoicePeriods))
 \<and> flattenInvoicePeriods
      (Some [(''Jan-2024'',
              \<lparr>InvoicePeriod_InvoicePeriod = label, InvoicePeriod_ActualCost = 100.5,
               InvoicePeriod_StartDate = ''2024-01-01'',
               InvoicePeriod_EndDate = ''2024-01-31''\<rparr>)])
    = Ok (Some [VMap (Some [(''invoiceperiod'', VString ''Jan-2024''),
                            (''actualcost'', VFloat 100.5),
                            (''startdate'', VString ''2024-01-01''),
                            (''enddate'', VString ''2024-01-31'')])])"
proof -
  let ?g = "\<lambda>(key, period).
                  VMap (Some [(''invoiceperiod'', VString key),
                              (''actualcost'', VFloat (InvoicePeriod_ActualCost period)),
                              (''startdate'', VString (InvoicePeriod_StartDate period)),
                              (''enddate'', VString (InvoicePeriod_EndDate period))])"
  from flattenInvoicePeriods_ok [of invoicePeriods] obtain r where
    r: "flattenInvoicePeriods invoicePeriods = Ok r"
       "map Ok (elems r) = map (\<lambda>(key, period). invoicePeriodAttrs key period) (entries invoicePeriods)"
    by blast
  have "invoicePeriodAttrs key period = Ok (?g (key, period))" for key period
    by (simp add: invoicePeriodAttrs_def)
  then have "(\<lambda>(key, period). invoicePeriodAttrs key period) = (\<lambda>x. Ok (?g x))"
    by (simp add: fun_eq_iff split_paired_all)
  with r(2) have "map Ok (elems r) = map Ok (map ?g (entries invoicePeriods))"
    by (simp only: map_map comp_def)
  then have e: "elems r = map ?g (entries invoicePeriods)"
    by (rule map_injective) (simp add: inj_def)
  then have "len r = length (entries invoicePeriods)"
    by (simp add: len_def)
  with r(1) e have 1: "\<exists>r. flattenInvoicePeriods invoicePeriods = Ok r
       \<and> len r = length (entries invoicePeriods) \<and> elems r = map ?g (entries invoicePeriods)"
    by blast
  have 2: "flattenInvoicePeriods
      (Some [(''Jan-2024'',
              \<lparr>InvoicePeriod_InvoicePeriod = label, InvoicePeriod_ActualCost = 100.5,
               InvoicePeriod_StartDate = ''2024-01-01'',
               InvoicePeriod_EndDate = ''2024-01-31''\<rparr>)])
    = Ok (Some [VMap (Some [(''invoiceperiod'', VString ''Jan-2024''),
                            (''actualcost'', VFloat 100.5),
                            (''startdate'', VString ''2024-01-01''),
                            (''enddate'', VString ''2024-01-31'')])])"
    by (simp add: flattenInvoicePeriods_def entries_def invoicePeriodAttrs_def and_then_def
        append_slice_def elems_def)
  from 1 2 show ?thesis by (rule conjI)
qed

section \<open>Empty input\<close>

text \<open>
  C5, as the code has it. Flattening an empty input sequence, nil or of length 0, yields
  a sequence of length 0, and for every flattener that returns a slice this sequence is
  the nil slice: the function declares \<^verbatim>\<open>var result []interface{}\<close> and returns it
  without an \<^verbatim>\<open>append\<close>. \<^verbatim>\<open>flattenStringMap\<close> returns the non-nil map it made. The field
  that holds a flattened empty sequence is present in the enclosing map, with the nil
  slice as its value.
\<close>

theorem flatten_empty:
  "flattenUsers None = Ok None \<and> flattenUsers (Some []) = Ok None
 \<and> flattenComments None = Ok None \<and> flattenComments (Some []) = Ok None
 \<and> flattenAttachments None = Ok None \<and> flattenAttachments (Some []) = Ok None
 \<and> flattenBillingItems None = Ok None \<and> flattenBillingItems (Some []) = Ok None
 \<and> flattenInvoicePeriods None = Ok None \<and> flattenInvoicePeriods (Some []) = Ok None
 \<and> flattenHistoryItems None = Ok None \<and> flattenHistoryItems (Some []) = Ok None
 \<and> flattenChanges None = Ok None \<and> flattenChanges (Some []) = Ok None
 \<and> flattenActions None = Ok None \<and> flattenActions (Some []) = Ok None
 \<and> flattenStringList None = Ok None \<and> flattenStringList (Some []) = Ok None
 \<and> len (None :: Value slice) = 0
 \<and> flattenStringMap None = Ok (Some []) \<and> flattenStringMap (Some []) = Ok (Some [])
 \<and> attachmentAttrs (attachment\<lparr>Attachment_UploadedBy := Some []\<rparr>)
      = Ok (VMap (Some [(''url'', VString (Attachment_URL attachment)),
                        (''uploaddatetime'', VString (Attachment_UploadDateTime attachment)),
                        (''uploadedby'', VList None),
                        (''filename'', VString (Attachment_Filename attachment))]))
 \<and> billingItemAttrs (item\<lparr>BillingItem_InvoicePeriods := Some []\<rparr>)
      = Ok (VMap (Some [(''id'', VString (BillingItem_ID item)),
                        (''partitionkey'', VString (BillingItem_PartitionKey item)),
                        (''subscriptionname'', VString (BillingItem_SubscriptionName item)),
                        (''invoiceperiods'', VList None)]))
 \<and> historyItemAttrs (historyItem\<lparr>HistoryItem_Author := Some [], HistoryItem_Changes := Some []\<rparr>)
      = Ok (VMap (Some [(''date'', VString (HistoryItem_Date historyItem)),
                        (''author'', VList None),
                        (''changes'', VList None)]))
 \<and> changeAttrs (change\<lparr>Change_OldValue := Some [], Change_NewValue := None\<rparr>)
      = Ok (VMap (Some [(''propertyname'', VString (Change_PropertyName change)),
                        (''oldvalue'', VMap (Some [])),
                        (''newvalue'', VMap (Some []))]))
 \<and> actionAttrs (action\<lparr>Action_RequiredProperties := Some []\<rparr>)
      = Ok (VMap (Some [(''actionname'', VString (Action_ActionName action)),
                        (''requiredproperties'', VList None),
                        (''type'', VString (Action_Type action)),
                        (''minnumofcatalogitems'', VInt (Action_MinNumOfCatalogItems action))]))"
  by (simp add: flattenUsers_def flattenComments_def flattenAttachments_def
      flattenBillingItems_def flattenInvoicePeriods_def flattenHistoryItems_def
      flattenChanges_def flattenActions_def flattenStringList_def flattenStringMap_def
      attachmentAttrs_def billingItemAttrs_def historyItemAttrs_def changeAttrs_def
      actionAttrs_def elems_def entries_def len_def make_map_def and_then_def)

text \<open>
  For a non-nil input of length 0, \<^verbatim>\<open>flattenComments\<close> returns the nil slice and not an
  allocated slice of length 0.
\<close>

theorem flattenComments_empty_is_nil:
  "flattenComments (Some []) = Ok None \<and> flattenComments (Some []) \<noteq> Ok (Some [])"
  by (simp add: flattenComments_def elems_def)

section \<open>Totality\<close>

text \<open>
  C8. Every flattener returns a result for every decoded input, the nil slice and the nil
  map included: none of them panics. The only operation in them that can panic is the
  store into a map, and \<^verbatim>\<open>flattenStringMap\<close> stores into the map it has made.
\<close>

theorem flatten_total:
  "(\<exists>r. flattenUsers users = Ok r)
 \<and> (\<exists>r. flattenComments comments = Ok r)
 \<and> (\<exists>r. flattenAttachments attachments = Ok r)
 \<and> (\<exists>r. flattenBillingItems billingItems = Ok r)
 \<and> (\<exists>r. flattenInvoicePeriods invoicePeriods = Ok r)
 \<and> (\<exists>r. flattenHistoryItems historyItems = Ok r)
 \<and> (\<exists>r. flattenChanges changes = Ok r)
 \<and> (\<exists>r. flattenStringMap m = Ok r)
 \<and> (\<exists>r. flattenActions actions = Ok r)
 \<and> (\<exists>r. flattenStringList list = Ok r)"
proof (intro conjI)
  show "\<exists>r. flattenUsers users = Ok r" by (rule ok_ex [OF flattenUsers_ok])
  show "\<exists>r. flattenComments comments = Ok r" by (rule ok_ex [OF flattenComments_ok])
  show "\<exists>r. flattenAttachments attachments = Ok r" by (rule ok_ex [OF flattenAttachments_ok])
  show "\<exists>r. flattenBillingItems billingItems = Ok r" by (rule ok_ex [OF flattenBillingItems_ok])
  show "\<exists>r. flattenInvoicePeriods invoicePeriods = Ok r"
    by (rule ok_ex [OF flattenInvoicePeriods_ok])
  show "\<exists>r. flattenHistoryItems historyItems = Ok r" by (rule ok_ex [OF flattenHistoryItems_ok])
  show "\<exists>r. flattenChanges changes = Ok r" by (rule ok_ex [OF flattenChanges_ok])
  show "\<exists>r. flattenStringMap m = Ok r"
    using flattenStringMap_ok [of m] by blast
  show "\<exists>r. flattenActions actions = Ok r" by (rule ok_ex [OF flattenActions_ok])
  show "\<exists>r. flattenStringList list = Ok r" by (rule ok_ex [OF flattenStringList_ok])
qed

section \<open>The logger without an instance\<close>

text \<open>
  C9. While \<^verbatim>\<open>logInstance\<close> is nil, which is the case when the logger was never
  initialised with success, \<^verbatim>\<open>Debug\<close>, \<^verbatim>\<open>Info\<close>, \<^verbatim>\<open>Error\<close> and \<^verbatim>\<open>Close\<close> change nothing:
  they write no line and they do not fail.
\<close>

theorem logger_nil_noop:
  "logInstance p = None \<Longrightarrow>
     Debug message p = p \<and> Info message p = p \<and> Error message p = p \<and> Close p = p"
  by (simp add: Debug_def Info_def Error_def Close_def)

theorem logger_nil_noop_witness:
  "logInstance fresh_Proc = None
   \<and> Debug ''url'' fresh_Proc = fresh_Proc \<and> Info ''start'' fresh_Proc = fresh_Proc
   \<and> Error ''failed'' fresh_Proc = fresh_Proc \<and> Close fresh_Proc = fresh_Proc"
proof -
  have h: "logInstance fresh_Proc = None" by (simp add: fresh_Proc_def)
  from logger_nil_noop [OF h, of "''url''"] logger_nil_noop [OF h, of "''start''"]
    logger_nil_noop [OF h, of "''failed''"] h
  show ?thesis by simp
qed

section \<open>What the read operation leaves in the resource data\<close>

lemma d_Set_fields:
  "rd_calls (d_Set accepts key v d) = rd_calls d @ [(key, v)]"
  "rd_id (d_Set accepts key v d) = rd_id d"
  "rd_Id (d_Set accepts key v d) = rd_Id d"
  by (simp_all add: d_Set_def)

lemma d_SetId_fields:
  "rd_calls (d_SetId i d) = rd_calls d"
  "rd_id (d_SetId i d) = rd_id d"
  "rd_Id (d_SetId i d) = Some i"
  by (simp_all add: d_SetId_def)

lemma set_returns:
  "\<exists>d'. dataSourceTicketRead_set env ticket d p = (Returned None, d', p)
        \<and> map fst (rd_calls d') = map fst (rd_calls d) @ read_keys
        \<and> rd_id d' = rd_id d \<and> rd_Id d' = Some (Ticket_ID ticket)"
proof -
  obtain c where c: "flattenComments (Ticket_Comments ticket) = Ok c"
    using flattenComments_ok by blast
  obtain a where a: "flattenAttachments (Ticket_Attachments ticket) = Ok a"
    using flattenAttachments_ok by blast
  obtain b where b: "flattenBillingItems (Ticket_BillingItems ticket) = Ok b"
    using flattenBillingItems_ok by blast
  obtain h where h: "flattenHistoryItems (Ticket_HistoryItems ticket) = Ok h"
    using flattenHistoryItems_ok by blast
  obtain v where v: "flattenActions (Ticket_ValidActions ticket) = Ok v"
    using flattenActions_ok by blast
  show ?thesis
    by (simp add: dataSourceTicketRead_set_def c a b h v Let_def d_Set_fields d_SetId_fields
        read_keys_def)
qed

lemma set_complete:
  "\<exists>d' p'. dataSourceTicketRead_set env ticket d q = (Returned None, d', p')
        \<and> map fst (rd_calls d') = map fst (rd_calls d) @ read_keys \<and> rd_Id d' \<noteq> None"
  using set_returns [of env ticket d q] by auto

lemma decode_complete:
  "\<exists>d' p'.
     (let bodyBytes = Reader_data r;
          p5 = (case Reader_err r of Some err \<Rightarrow> Error err p4 | None \<Rightarrow> p4);
          p6 = Debug bodyBytes p5;
          (err, ticket) = json_Unmarshal env bodyBytes;
          p7 = (case err of Some e \<Rightarrow> Error e p6 | None \<Rightarrow> p6)
      in dataSourceTicketRead_set env ticket d p7) = (Returned None, d', p')
     \<and> map fst (rd_calls d') = map fst (rd_calls d) @ read_keys \<and> rd_Id d' \<noteq> None"
proof -
  obtain err ticket where u: "json_Unmarshal env (Reader_data r) = (err, ticket)"
    by (cases "json_Unmarshal env (Reader_data r)")
  define p6 where "p6 = Debug (Reader_data r)
    (case Reader_err r of Some err \<Rightarrow> Error err p4 | None \<Rightarrow> p4)"
  define p7 where "p7 = (case err of Some e \<Rightarrow> Error e p6 | None \<Rightarrow> p6)"
  have eq: "(let bodyBytes = Reader_data r;
          p5 = (case Reader_err r of Some err \<Rightarrow> Error err p4 | None \<Rightarrow> p4);
          p6 = Debug bodyBytes p5;
          (err, ticket) = json_Unmarshal env bodyBytes;
          p7 = (case err of Some e \<Rightarrow> Error e p6 | None \<Rightarrow> p6)
      in dataSourceTicketRead_set env ticket d p7) = dataSourceTicketRead_set env ticket d p7"
    unfolding p7_def p6_def Let_def u by simp
  show ?thesis
    using set_complete [of env ticket d p7] by (simp only: eq)
qed

lemma body_all_or_nothing:
  "(\<exists>d' p'. dataSourceTicketRead_body env resp d p = (Returned None, d', p')
        \<and> map fst (rd_calls d') = map fst (rd_calls d) @ read_keys \<and> rd_Id d' \<noteq> None)
   \<or> (\<exists>p'. dataSourceTicketRead_body env resp d p = (Panicked nil_dereference, d, p'))"
proof (cases "header_Get (Response_Header resp) ''Content-Encoding'' = ''gzip''")
  case False
  then have "dataSourceTicketRead_body env resp d p =
     (let bodyBytes = Reader_data (Response_Body resp);
          p5 = (case Reader_err (Response_Body resp) of Some err \<Rightarrow> Error err p | None \<Rightarrow> p);
          p6 = Debug bodyBytes p5;
          (err, ticket) = json_Unmarshal env bodyBytes;
          p7 = (case err of Some e \<Rightarrow> Error e p6 | None \<Rightarrow> p6)
      in dataSourceTicketRead_set env ticket d p7)"
    by (simp add: dataSourceTicketRead_body_def)
  with decode_complete [of "Response_Body resp" p env d] show ?thesis
    by simp
next
  case True
  show ?thesis
  proof (cases "gzip_NewReader env (Response_Body resp)")
    case (Inl err)
    with True have "dataSourceTicketRead_body env resp d p = (Panicked nil_dereference, d, Error err p)"
      by (simp add: dataSourceTicketRead_body_def)
    then show ?thesis by simp
  next
    case (Inr gz)
    with True have "dataSourceTicketRead_body env resp d p =
     (let bodyBytes = Reader_data gz;
          p5 = (case Reader_err gz of Some err \<Rightarrow> Error err p | None \<Rightarrow> p);
          p6 = Debug bodyBytes p5;
          (err, ticket) = json_Unmarshal env bodyBytes;
          p7 = (case err of Some e \<Rightarrow> Error e p6 | None \<Rightarrow> p6)
      in dataSourceTicketRead_set env ticket d p7)"
      by (simp add: dataSourceTicketRead_body_def)
    with decode_complete [of gz p env d] show ?thesis
      by simp
  qed
qed


lemma deferred_Close_keeps: "\<exists>p'. deferred_Close b (out, d, p) = (out, d, p')"
  by (cases out) (simp_all add: deferred_Close_def)

lemma request_all_or_nothing:
  "(\<exists>d' p'. dataSourceTicketRead_request env cred d p = (Returned None, d', p')
        \<and> map fst (rd_calls d') = map fst (rd_calls d) @ read_keys \<and> rd_Id d' \<noteq> None)
   \<or> (\<exists>out p'. dataSourceTicketRead_request env cred d p = (out, d, p') \<and> out \<noteq> Returned None)"
proof (cases "NewRequest env (BaseURL cred @ ''/ticket/'' @ rd_id d)")
  case (Some err)
  then show ?thesis by (simp add: dataSourceTicketRead_request_def)
next
  case None
  note nr = this
  show ?thesis
  proof (cases "aziclient cred")
    case None
    with nr show ?thesis by (simp add: dataSourceTicketRead_request_def)
  next
    case (Some azi)
    note az = this
    show ?thesis
    proof (cases "GetToken env azi [tenantID cred @ ''/.default'']")
      case (Inl err)
      with nr az show ?thesis by (simp add: dataSourceTicketRead_request_def)
    next
      case (Inr token)
      note tk = this
      show ?thesis
      proof (cases "Do env (ticketRequest (BaseURL cred @ ''/ticket/'' @ rd_id d) token)")
        case (Inl err)
        with nr az tk show ?thesis by (simp add: dataSourceTicketRead_request_def)
      next
        case (Inr resp)
        note rs = this
        show ?thesis
        proof (cases "Response_StatusCode resp = 200")
          case False
          with nr az tk rs show ?thesis by (simp add: dataSourceTicketRead_request_def)
        next
          case True
          let ?p3 = "Debug (Response_Status resp)
            (Debug (''Token : '' @ token) (Debug (BaseURL cred @ ''/ticket/'' @ rd_id d) p))"
          from nr az tk rs True have "dataSourceTicketRead_request env cred d p
             = dataSourceTicketRead_body env resp d ?p3"
            by (simp add: dataSourceTicketRead_request_def)
          with body_all_or_nothing [of env resp d ?p3] show ?thesis
            by (auto simp: nil_dereference_def)
        qed
      qed
    qed
  qed
qed

lemma read_outcome_cases:
  "(\<exists>d' p'. dataSourceTicketRead env cred d p = (Returned None, d', p')
        \<and> map fst (rd_calls d') = map fst (rd_calls d) @ read_keys \<and> rd_Id d' \<noteq> None)
   \<or> (\<exists>out p'. dataSourceTicketRead env cred d p = (out, d, p') \<and> out \<noteq> Returned None)"
proof -
  let ?pro = "(if isdebug cred then
               (case NewLogger (open_err env) True p of
                  ((_, Some err), p') \<Rightarrow> (Some err, p')
                | ((_, None), p') \<Rightarrow> (None, p'))
             else (None, p))"
  obtain fatal p0 where pro: "?pro = (fatal, p0)"
    by (cases ?pro)
  show ?thesis
  proof (cases fatal)
    case (Some err)
    have "dataSourceTicketRead env cred d p = (Exited (''Error initializing logger:'' @ err), d, p0)"
      unfolding dataSourceTicketRead_def pro by (simp add: Some)
    then show ?thesis by simp
  next
    case None
    have eq: "dataSourceTicketRead env cred d p
      = deferred_Close (isdebug cred) (dataSourceTicketRead_request env cred d p0)"
      unfolding dataSourceTicketRead_def pro by (simp add: None)
    from request_all_or_nothing [of env cred d p0] show ?thesis
    proof
      assume "\<exists>d' p'. dataSourceTicketRead_request env cred d p0 = (Returned None, d', p')
        \<and> map fst (rd_calls d') = map fst (rd_calls d) @ read_keys \<and> rd_Id d' \<noteq> None"
      then obtain d' p' where r: "dataSourceTicketRead_request env cred d p0 = (Returned None, d', p')"
        "map fst (rd_calls d') = map fst (rd_calls d) @ read_keys" "rd_Id d' \<noteq> None"
        by blast
      from deferred_Close_keeps [of "isdebug cred" "Returned None" d' p'] obtain p'' where
        "deferred_Close (isdebug cred) (Returned None, d', p') = (Returned None, d', p'')"
        by blast
      with eq r(1) have "dataSourceTicketRead env cred d p = (Returned None, d', p'')"
        by (simp only:)
      with r(2,3) show ?thesis by blast
    next
      assume "\<exists>out p'. dataSourceTicketRead_request env cred d p0 = (out, d, p') \<and> out \<noteq> Returned None"
      then obtain out p' where r: "dataSourceTicketRead_request env cred d p0 = (out, d, p')"
        "out \<noteq> Returned None"
        by blast
      from deferred_Close_keeps [of "isdebug cred" out d p'] obtain p'' where
        "deferred_Close (isdebug cred) (out, d, p') = (out, d, p'')"
        by blast
      with eq r(1) have "dataSourceTicketRead env cred d p = (out, d, p'')"
        by (simp only:)
      with r(2) show ?thesis by blast
    qed
  qed
qed

text \<open>
  What fits the ticket schema at the top level among the values that the read operation
  hands to \<^verbatim>\<open>d.Set\<close>: the strings, the integer and the slices do, the \<^verbatim>\<open>User\<close> structs
  given for \<^verbatim>\<open>createdby\<close> and \<^verbatim>\<open>changedby\<close> do not.
\<close>

lemma fits_string:
  "fits_schema ''id'' (VString s)" "fits_schema ''title'' (VString s)"
  "fits_schema ''description'' (VString s)" "fits_schema ''status'' (VString s)"
  "fits_schema ''substatus'' (VString s)" "fits_schema ''statuschangedat'' (VString s)"
  "fits_schema ''createdat'' (VString s)"
  by (simp_all add: fits_schema_def TicketSchema_def)

lemma fits_int: "fits_schema ''ticketno'' (VInt i)"
  by (simp add: fits_schema_def TicketSchema_def)

lemma fits_list:
  "fits_schema ''participants'' (VParticipants ps)" "fits_schema ''comments'' (VList vs)"
  "fits_schema ''attachments'' (VList vs)" "fits_schema ''billingitems'' (VList vs)"
  "fits_schema ''historyitems'' (VList vs)" "fits_schema ''validactions'' (VList vs)"
  by (simp_all add: fits_schema_def TicketSchema_def)

lemma fits_not_struct:
  "\<not> fits_schema ''createdby'' (VUser u)" "\<not> fits_schema ''changedby'' (VUser u)"
  by (simp_all add: fits_schema_def TicketSchema_def)

lemmas fits = fits_string fits_int fits_list fits_not_struct

text \<open>
  The last part of the read operation on a ticket without comments, attachments,
  billing items, history items and actions, from empty resource data, when the SDK finds
  no fault below the top level: sixteen calls, fourteen attributes written.
\<close>

lemma set_nil_collections:
  assumes "Set_accepts env = (\<lambda>key v. True)"
    and "Ticket_Comments t = None" "Ticket_Attachments t = None" "Ticket_BillingItems t = None"
    and "Ticket_HistoryItems t = None" "Ticket_ValidActions t = None"
  shows "dataSourceTicketRead_set env t \<lparr>rd_id = i, rd_calls = [], rd_state = [], rd_Id = None\<rparr> p
     = (Returned None,
        \<lparr>rd_id = i,
         rd_calls =
           [(''id'', VString (Ticket_ID t)), (''ticketno'', VInt (Ticket_TicketNo t)),
            (''title'', VString (Ticket_Title t)),
            (''description'', VString (Ticket_Description t)),
            (''status'', VString (Ticket_Status t)), (''substatus'', VString (Ticket_SubStatus t)),
            (''statuschangedat'', VString (Ticket_StatusChangedAt t)),
            (''createdat'', VString (Ticket_CreatedAt t)),
            (''createdby'', VUser (Ticket_CreatedBy t)),
            (''changedby'', VUser (Ticket_ChangedBy t)),
            (''participants'', VParticipants (Ticket_Participants t)), (''comments'', VList None),
            (''attachments'', VList None), (''billingitems'', VList None),
            (''historyitems'', VList None), (''validactions'', VList None)],
         rd_state =
           [(''id'', VString (Ticket_ID t)), (''ticketno'', VInt (Ticket_TicketNo t)),
            (''title'', VString (Ticket_Title t)),
            (''description'', VString (Ticket_Description t)),
            (''status'', VString (Ticket_Status t)), (''substatus'', VString (Ticket_SubStatus t)),
            (''statuschangedat'', VString (Ticket_StatusChangedAt t)),
            (''createdat'', VString (Ticket_CreatedAt t)),
            (''participants'', VParticipants (Ticket_Participants t)), (''comments'', VList None),
            (''attachments'', VList None), (''billingitems'', VList None),
            (''historyitems'', VList None), (''validactions'', VList None)],
         rd_Id = Some (Ticket_ID t)\<rparr>,
        p)"
  by (simp add: dataSourceTicketRead_set_def assms fits d_Set_def d_SetId_def Let_def
      flattenComments_def flattenAttachments_def flattenBillingItems_def
      flattenHistoryItems_def flattenActions_def elems_def)

text \<open>The example environments, field by field, and what a concrete run unfolds.\<close>

lemma example_Env_fields:
  "open_err (example_Env l a u) = l"
  "NewRequest (example_Env l a u) url = None"
  "GetToken (example_Env l a u) azi scopes = Inr ''token''"
  "Do (example_Env l a u) req = a"
  "gzip_NewReader (example_Env l a u) r = Inl ''gzip: invalid header''"
  "json_Unmarshal (example_Env l a u) bodyBytes = u"
  "Set_accepts (example_Env l a u) = (\<lambda>key v. True)"
  by (simp_all add: example_Env_def)

lemmas run_defs = dataSourceTicketRead_def dataSourceTicketRead_request_def
  dataSourceTicketRead_body_def deferred_Close_def example_Env_fields
  example_client_def example_data_def fresh_Proc_def response_404_def response_200_def
  Debug_def Error_def Info_def Close_def header_Get_def Let_def

lemma nil_collections:
  "Ticket_Comments zero_Ticket = None" "Ticket_Attachments zero_Ticket = None"
  "Ticket_BillingItems zero_Ticket = None" "Ticket_HistoryItems zero_Ticket = None"
  "Ticket_ValidActions zero_Ticket = None"
  "Ticket_Comments example_Ticket = None" "Ticket_Attachments example_Ticket = None"
  "Ticket_BillingItems example_Ticket = None" "Ticket_HistoryItems example_Ticket = None"
  "Ticket_ValidActions example_Ticket = None"
  by (simp_all add: example_Ticket_def zero_Ticket_def)

text \<open>
  The run in which the server answers 200 with the body of the example ticket, and the
  run in which the body is not JSON.
\<close>

lemma run_ok:
  "dataSourceTicketRead env_ok example_client example_data fresh_Proc
     = (Returned None,
        \<lparr>rd_id = ''42'',
         rd_calls =
           [(''id'', VString ''42''), (''ticketno'', VInt 0), (''title'', VString []),
            (''description'', VString []), (''status'', VString []), (''substatus'', VString []),
            (''statuschangedat'', VString []), (''createdat'', VString []),
            (''createdby'', VUser (zero_User\<lparr>User_ID := ''creator''\<rparr>)),
            (''changedby'', VUser zero_User),
            (''participants'', VParticipants None), (''comments'', VList None),
            (''attachments'', VList None), (''billingitems'', VList None),
            (''historyitems'', VList None), (''validactions'', VList None)],
         rd_state =
           [(''id'', VString ''42''), (''ticketno'', VInt 0), (''title'', VString []),
            (''description'', VString []), (''status'', VString []), (''substatus'', VString []),
            (''statuschangedat'', VString []), (''createdat'', VString []),
            (''participants'', VParticipants None), (''comments'', VList None),
            (''attachments'', VList None), (''billingitems'', VList None),
            (''historyitems'', VList None), (''validactions'', VList None)],
         rd_Id = Some ''42''\<rparr>,
        fresh_Proc)"
  by (simp add: env_ok_def run_defs set_nil_collections nil_collections)
     (simp add: example_Ticket_def zero_Ticket_def)

lemma run_bad_json:
  "dataSourceTicketRead env_bad_json example_client example_data fresh_Proc
     = (Returned None,
        \<lparr>rd_id = ''42'',
         rd_calls =
           [(''id'', VString []), (''ticketno'', VInt 0), (''title'', VString []),
            (''description'', VString []), (''status'', VString []), (''substatus'', VString []),
            (''statuschangedat'', VString []), (''createdat'', VString []),
            (''createdby'', VUser zero_User), (''changedby'', VUser zero_User),
            (''participants'', VParticipants None), (''comments'', VList None),
            (''attachments'', VList None), (''billingitems'', VList None),
            (''historyitems'', VList None), (''validactions'', VList None)],
         rd_state =
           [(''id'', VString []), (''ticketno'', VInt 0), (''title'', VString []),
            (''description'', VString []), (''status'', VString []), (''substatus'', VString []),
            (''statuschangedat'', VString []), (''createdat'', VString []),
            (''participants'', VParticipants None), (''comments'', VList None),
            (''attachments'', VList None), (''billingitems'', VList None),
            (''historyitems'', VList None), (''validactions'', VList None)],
         rd_Id = Some []\<rparr>,
        fresh_Proc)"
  by (simp add: env_bad_json_def run_defs set_nil_collections nil_collections)
     (simp add: zero_Ticket_def)

text \<open>
  C2, at a read that succeeds. The claim asks that a read either sets the full attribute
  set and succeeds, or sets nothing and fails, so that partial data is never committed.
  A read that does not return nil does leave the resource data as they were. The read
  that returns nil on the example ticket has written fourteen of the twenty-four
  attributes of the schema: the creator that the body names is handed to \<^verbatim>\<open>d.Set\<close> as a
  \<^verbatim>\<open>User\<close> struct, which the list attribute \<^verbatim>\<open>createdby\<close> does not take, and the error
  of \<^verbatim>\<open>d.Set\<close> is dropped; \<^verbatim>\<open>changedby\<close> likewise; and eight attributes are never
  handed over.
\<close>

theorem read_commits_part_of_attributes:
  "fst (dataSourceTicketRead env_ok example_client example_data fresh_Proc) = Returned None
 \<and> map fst (rd_state (fst (snd (dataSourceTicketRead env_ok example_client example_data fresh_Proc))))
     = [''id'', ''ticketno'', ''title'', ''description'', ''status'', ''substatus'',
        ''statuschangedat'', ''createdat'', ''participants'', ''comments'', ''attachments'',
        ''billingitems'', ''historyitems'', ''validactions'']
 \<and> Ticket_CreatedBy example_Ticket = zero_User\<lparr>User_ID := ''creator''\<rparr>
 \<and> map_of (rd_calls (fst (snd (dataSourceTicketRead env_ok example_client example_data fresh_Proc))))
       ''createdby'' = Some (VUser (zero_User\<lparr>User_ID := ''creator''\<rparr>))
 \<and> map_of (rd_state (fst (snd (dataSourceTicketRead env_ok example_client example_data fresh_Proc))))
       ''createdby'' = None
 \<and> filter (\<lambda>k. k \<notin> set (map fst (rd_state (fst (snd
        (dataSourceTicketRead env_ok example_client example_data fresh_Proc))))))
       (map fst TicketSchema)
     = [''createdby'', ''changedby'', ''claritycode'', ''editableproperties'',
        ''mandatoryproperties'', ''etag'', ''type'', ''serviceprovider'', ''cloudplatform'',
        ''catalogitems'']"
  unfolding run_ok by (simp add: example_Ticket_def TicketSchema_def)

section \<open>A status other than 200\<close>

lemma read_after_logger:
  assumes "isdebug cred \<longrightarrow> snd (fst (NewLogger (open_err env) True p)) = None"
  shows "\<exists>p0. dataSourceTicketRead env cred d p
           = deferred_Close (isdebug cred) (dataSourceTicketRead_request env cred d p0)"
proof (cases "isdebug cred")
  case False
  then have "dataSourceTicketRead env cred d p
           = deferred_Close (isdebug cred) (dataSourceTicketRead_request env cred d p)"
    by (simp add: dataSourceTicketRead_def)
  then show ?thesis ..
next
  case True
  obtain l e p' where nl: "NewLogger (open_err env) True p = ((l, e), p')"
    by (cases "NewLogger (open_err env) True p") auto
  with assms True have "e = None" by simp
  with True nl have "dataSourceTicketRead env cred d p
           = deferred_Close (isdebug cred) (dataSourceTicketRead_request env cred d p')"
    by (simp add: dataSourceTicketRead_def)
  then show ?thesis ..
qed

lemma request_status:
  assumes "NewRequest env (BaseURL cred @ ''/ticket/'' @ rd_id d) = None"
    and "aziclient cred = Some azi"
    and "GetToken env azi [tenantID cred @ ''/.default''] = Inr token"
    and "Do env (ticketRequest (BaseURL cred @ ''/ticket/'' @ rd_id d) token) = Inr resp"
    and "Response_StatusCode resp \<noteq> 200"
  shows "\<exists>p'. dataSourceTicketRead_request env cred d p0
           = (Returned (Some (''API call failed with status '' @ fmt_d (Response_StatusCode resp)
                              @ '': '' @ Response_Status resp)), d, p')"
  using assms by (simp add: dataSourceTicketRead_request_def)

text \<open>
  C7. When the response that the read operation receives has a status code other than
  200, the operation returns the error \<^verbatim>\<open>API call failed with status <code>: <status>\<close>,
  which carries the status code and the status text, and sets no attribute. A response is
  received when the logger, if debug mode asks for it, is available, the request is
  built, the credential is present, a token is issued and the call succeeds.
\<close>

theorem read_status_not_200:
  assumes "isdebug cred \<longrightarrow> snd (fst (NewLogger (open_err env) True p)) = None"
    and "NewRequest env (BaseURL cred @ ''/ticket/'' @ rd_id d) = None"
    and "aziclient cred = Some azi"
    and "GetToken env azi [tenantID cred @ ''/.default''] = Inr token"
    and "Do env (ticketRequest (BaseURL cred @ ''/ticket/'' @ rd_id d) token) = Inr resp"
    and "Response_StatusCode resp \<noteq> 200"
  shows "fst (dataSourceTicketRead env cred d p)
           = Returned (Some (''API call failed with status '' @ fmt_d (Response_StatusCode resp)
                             @ '': '' @ Response_Status resp))
       \<and> fst (snd (dataSourceTicketRead env cred d p)) = d"
proof -
  let ?out = "Returned (Some (''API call failed with status '' @ fmt_d (Response_StatusCode resp)
                             @ '': '' @ Response_Status resp))"
  from read_after_logger [OF assms(1)] obtain p0 where
    a: "dataSourceTicketRead env cred d p
           = deferred_Close (isdebug cred) (dataSourceTicketRead_request env cred d p0)"
    by blast
  from request_status [OF assms(2-6)] obtain p' where
    b: "dataSourceTicketRead_request env cred d p0 = (?out, d, p')"
    by blast
  from deferred_Close_keeps [of "isdebug cred" ?out d p'] obtain p'' where
    c: "deferred_Close (isdebug cred) (?out, d, p') = (?out, d, p'')"
    by blast
  from a b c have "dataSourceTicketRead env cred d p = (?out, d, p'')"
    by (simp only:)
  then show ?thesis by simp
qed

text \<open>The server answers 404 Not Found.\<close>

theorem read_status_not_200_witness:
  "\<not> isdebug example_client
 \<and> NewRequest env_404 (BaseURL example_client @ ''/ticket/'' @ rd_id example_data) = None
 \<and> aziclient example_client
     = Some \<lparr>Credential_tenantID = ''tenant'', Credential_clientID = ''client'',
             Credential_clientSecret = ''secret''\<rparr>
 \<and> GetToken env_404
       \<lparr>Credential_tenantID = ''tenant'', Credential_clientID = ''client'',
        Credential_clientSecret = ''secret''\<rparr>
       [tenantID example_client @ ''/.default''] = Inr ''token''
 \<and> Do env_404 (ticketRequest (BaseURL example_client @ ''/ticket/'' @ rd_id example_data) ''token'')
     = Inr response_404
 \<and> Response_StatusCode response_404 \<noteq> 200
 \<and> fst (dataSourceTicketRead env_404 example_client example_data fresh_Proc)
     = Returned (Some ''API call failed with status 404: 404 Not Found'')
 \<and> fst (snd (dataSourceTicketRead env_404 example_client example_data fresh_Proc)) = example_data"
proof -
  have h1: "isdebug example_client \<longrightarrow> snd (fst (NewLogger (open_err env_404) True fresh_Proc)) = None"
    by (simp add: example_client_def)
  have h2: "NewRequest env_404 (BaseURL example_client @ ''/ticket/'' @ rd_id example_data) = None"
    by (simp add: env_404_def example_Env_def)
  have h3: "aziclient example_client
     = Some \<lparr>Credential_tenantID = ''tenant'', Credential_clientID = ''client'',
             Credential_clientSecret = ''secret''\<rparr>"
    by (simp add: example_client_def)
  have h4: "GetToken env_404
       \<lparr>Credential_tenantID = ''tenant'', Credential_clientID = ''client'',
        Credential_clientSecret = ''secret''\<rparr>
       [tenantID example_client @ ''/.default''] = Inr ''token''"
    by (simp add: env_404_def example_Env_def)
  have h5: "Do env_404 (ticketRequest (BaseURL example_client @ ''/ticket/'' @ rd_id example_data) ''token'')
     = Inr response_404"
    by (simp add: env_404_def example_Env_def)
  have h6: "Response_StatusCode response_404 \<noteq> 200"
    by (simp add: response_404_def)
  have f: "fmt_d (Response_StatusCode response_404) = ''404''"
    by (simp add: response_404_def fmt_d_def dec_digits.simps)
  have s: "Response_Status response_404 = ''404 Not Found''"
    by (simp add: response_404_def)
  have h0: "\<not> isdebug example_client"
    by (simp add: example_client_def)
  from read_status_not_200 [OF h1 h2 h3 h4 h5 h6] h0 h2 h3 h4 h5 h6
  show ?thesis
    by (simp only: f s append.simps) simp
qed

section \<open>Upstream failures that are not surfaced\<close>

text \<open>
  C1, at three upstream failures. The claim asks for a returned error and no call of a
  flattener at each of them. The code returns an error when the request cannot be built,
  when the call fails and when the status is not 200. When the body is not JSON, it logs
  the error of \<^verbatim>\<open>json.Unmarshal\<close>, goes on to the sixteen \<^verbatim>\<open>d.Set\<close> calls with the zero
  ticket, the five flatteners included, writes the values that fit the schema into the
  state, and returns nil. When \<^verbatim>\<open>gzip.NewReader\<close> fails,
  it logs the error and panics on the nil reader. When no token is issued, it logs the
  error and ends the process.
\<close>

theorem read_failures_not_surfaced:
  "dataSourceTicketRead env_bad_json example_client example_data fresh_Proc
     = (Returned None,
        \<lparr>rd_id = ''42'',
         rd_calls =
           [(''id'', VString []), (''ticketno'', VInt 0), (''title'', VString []),
            (''description'', VString []), (''status'', VString []), (''substatus'', VString []),
            (''statuschangedat'', VString []), (''createdat'', VString []),
            (''createdby'', VUser zero_User), (''changedby'', VUser zero_User),
            (''participants'', VParticipants None), (''comments'', VList None),
            (''attachments'', VList None), (''billingitems'', VList None),
            (''historyitems'', VList None), (''validactions'', VList None)],
         rd_state =
           [(''id'', VString []), (''ticketno'', VInt 0), (''title'', VString []),
            (''description'', VString []), (''status'', VString []), (''substatus'', VString []),
            (''statuschangedat'', VString []), (''createdat'', VString []),
            (''participants'', VParticipants None), (''comments'', VList None),
            (''attachments'', VList None), (''billingitems'', VList None),
            (''historyitems'', VList None), (''validactions'', VList None)],
         rd_Id = Some []\<rparr>,
        fresh_Proc)
 \<and> dataSourceTicketRead env_bad_gzip example_client example_data fresh_Proc
     = (Panicked ''runtime error: invalid memory address or nil pointer dereference'', example_data,
        fresh_Proc)
 \<and> dataSourceTicketRead env_no_token example_client example_data fresh_Proc
     = (Exited ''failed to obtain a token: invalid client secret'', example_data, fresh_Proc)"
proof (intro conjI)
  show "dataSourceTicketRead env_bad_gzip example_client example_data fresh_Proc
     = (Panicked ''runtime error: invalid memory address or nil pointer dereference'', example_data,
        fresh_Proc)"
    by (simp add: env_bad_gzip_def run_defs nil_dereference_def)
  show "dataSourceTicketRead env_no_token example_client example_data fresh_Proc
     = (Exited ''failed to obtain a token: invalid client secret'', example_data, fresh_Proc)"
    by (simp add: env_no_token_def env_ok_def run_defs)
qed (rule run_bad_json)

section \<open>Schema attributes that the read operation does not set\<close>

text \<open>
  C6, at a successful read. The claim asks for every attribute of the ticket schema to be
  assigned. The code assigns sixteen of the twenty-four; \<^verbatim>\<open>claritycode\<close>,
  \<^verbatim>\<open>editableproperties\<close>, \<^verbatim>\<open>mandatoryproperties\<close>, \<^verbatim>\<open>etag\<close>, \<^verbatim>\<open>type\<close>,
  \<^verbatim>\<open>serviceprovider\<close>, \<^verbatim>\<open>cloudplatform\<close> and \<^verbatim>\<open>catalogitems\<close> are declared in the
  schema and decoded into the ticket, and no \<^verbatim>\<open>d.Set\<close> names them: the decoded ETag
  \<^verbatim>\<open>W/7\<close> is in no call of \<^verbatim>\<open>d.Set\<close> and in no attribute of the state.
\<close>

theorem read_leaves_schema_attributes_unset:
  "fst (dataSourceTicketRead env_ok example_client example_data fresh_Proc) = Returned None
 \<and> map fst (rd_calls (fst (snd (dataSourceTicketRead env_ok example_client example_data fresh_Proc))))
     = read_keys
 \<and> filter (\<lambda>k. k \<notin> set read_keys) (map fst TicketSchema)
     = [''claritycode'', ''editableproperties'', ''mandatoryproperties'', ''etag'', ''type'',
        ''serviceprovider'', ''cloudplatform'', ''catalogitems'']
 \<and> Ticket_ETag example_Ticket = ''W/7''
 \<and> map_of (rd_calls (fst (snd (dataSourceTicketRead env_ok example_client example_data fresh_Proc))))
       ''etag'' = None
 \<and> map_of (rd_state (fst (snd (dataSourceTicketRead env_ok example_client example_data fresh_Proc))))
       ''etag'' = None"
proof -
  have k: "filter (\<lambda>k. k \<notin> set read_keys) (map fst TicketSchema)
     = [''claritycode'', ''editableproperties'', ''mandatoryproperties'', ''etag'', ''type'',
        ''serviceprovider'', ''cloudplatform'', ''catalogitems'']"
    by (simp add: read_keys_def TicketSchema_def)
  have e: "Ticket_ETag example_Ticket = ''W/7''"
    by (simp add: example_Ticket_def)
  show ?thesis
    unfolding run_ok by (simp add: k e) (simp add: read_keys_def)
qed

section \<open>Provider configuration returns, or the process ends\<close>

text \<open>
  C10, as the code has it. Unless debug mode is on and the logger cannot be initialised,
  \<^verbatim>\<open>providerConfigure\<close> returns an error exactly when \<^verbatim>\<open>api_key\<close> or \<^verbatim>\<open>base_url\<close> is
  empty, and otherwise returns a client and no error; when the credential cannot be
  made, the error is only logged and the client holds a nil credential. When debug mode
  is on and the logger cannot be initialised, \<^verbatim>\<open>log.Fatal\<close> ends the process before
  \<^verbatim>\<open>api_key\<close> and \<^verbatim>\<open>base_url\<close> are looked at, and nothing is returned.
\<close>

theorem providerConfigure_result:
  "((debug_info d \<longrightarrow> snd (fst (NewLogger (open_err env) True p)) = None) \<longrightarrow>
      ((\<exists>c e. fst (providerConfigure env d p) = Returned (c, Some e))
         \<longleftrightarrow> (api_key d = [] \<or> base_url d = []))
    \<and> (api_key d \<noteq> [] \<and> base_url d \<noteq> [] \<longrightarrow>
         (\<exists>c. fst (providerConfigure env d p) = Returned (Some c, None)
            \<and> (\<forall>err. NewClientSecretCredential env (cfg_tenantID d) (clientID d) (clientSecret d)
                        = Inl err \<longrightarrow> aziclient c = None))))
 \<and> (debug_info d \<and> snd (fst (NewLogger (open_err env) True p)) = Some err \<longrightarrow>
      fst (providerConfigure env d p) = Exited (''Error initializing logger:'' @ err))"
proof -
  obtain l e p' where nl: "NewLogger (open_err env) True p = ((l, e), p')"
    by (cases "NewLogger (open_err env) True p") auto
  show ?thesis
  proof (cases "debug_info d")
    case False
    then show ?thesis
      by (auto simp: providerConfigure_def Let_def NewCloudportalAPIClient_def split: sum.split)
  next
    case True
    show ?thesis
    proof (cases e)
      case None
      with True nl show ?thesis
        by (auto simp: providerConfigure_def Let_def NewCloudportalAPIClient_def split: sum.split)
    next
      case (Some x)
      with True nl show ?thesis
        by (simp add: providerConfigure_def)
    qed
  qed
qed

text \<open>
  Debug mode is on, the log file cannot be opened, \<^verbatim>\<open>api_key\<close> and \<^verbatim>\<open>base_url\<close> are
  given: the process ends, and neither a client nor an error is returned.
\<close>

theorem providerConfigure_fatal:
  "api_key (example_config True) \<noteq> [] \<and> base_url (example_config True) \<noteq> []
 \<and> providerConfigure env_no_log (example_config True) fresh_Proc
     = (Exited ''Error initializing logger:logger not initialized'',
        \<lparr>logInstance = None, once_done = True,
         stdout = [''Error opening file: permission denied'']\<rparr>)"
  by (simp add: providerConfigure_def env_no_log_def example_Env_def example_config_def
      fresh_Proc_def NewLogger_def)

text \<open>
  Three runs: the secret is empty, the credential cannot be made and a client with a nil
  credential is returned; \<^verbatim>\<open>api_key\<close> is empty and an error is returned; the log file cannot be opened
  in debug mode and the process ends.
\<close>

theorem providerConfigure_result_witness:
  "\<not> debug_info ((example_config False)\<lparr>clientSecret := []\<rparr>)
 \<and> api_key ((example_config False)\<lparr>clientSecret := []\<rparr>) \<noteq> [] \<and> base_url ((example_config False)\<lparr>clientSecret := []\<rparr>) \<noteq> []
 \<and> NewClientSecretCredential env_no_credential (cfg_tenantID ((example_config False)\<lparr>clientSecret := []\<rparr>))
      (clientID ((example_config False)\<lparr>clientSecret := []\<rparr>)) (clientSecret ((example_config False)\<lparr>clientSecret := []\<rparr>))
     = Inl ''secret cannot be empty''
 \<and> (\<exists>c. fst (providerConfigure env_no_credential ((example_config False)\<lparr>clientSecret := []\<rparr>) fresh_Proc)
           = Returned (Some c, None) \<and> aziclient c = None)
 \<and> api_key ((example_config False)\<lparr>api_key := []\<rparr>) = []
 \<and> (\<exists>c e. fst (providerConfigure env_ok ((example_config False)\<lparr>api_key := []\<rparr>) fresh_Proc)
             = Returned (c, Some e))
 \<and> debug_info (example_config True)
 \<and> snd (fst (NewLogger (open_err env_no_log) True fresh_Proc)) = Some ''logger not initialized''
 \<and> fst (providerConfigure env_no_log (example_config True) fresh_Proc)
     = Exited ''Error initializing logger:logger not initialized''"
proof -
  have a1: "debug_info ((example_config False)\<lparr>clientSecret := []\<rparr>) \<longrightarrow>
      snd (fst (NewLogger (open_err env_no_credential) True fresh_Proc)) = None"
    by (simp add: example_config_def)
  have a2: "api_key ((example_config False)\<lparr>clientSecret := []\<rparr>) \<noteq> [] \<and> base_url ((example_config False)\<lparr>clientSecret := []\<rparr>) \<noteq> []"
    by (simp add: example_config_def)
  have a3: "NewClientSecretCredential env_no_credential (cfg_tenantID ((example_config False)\<lparr>clientSecret := []\<rparr>))
      (clientID ((example_config False)\<lparr>clientSecret := []\<rparr>)) (clientSecret ((example_config False)\<lparr>clientSecret := []\<rparr>))
     = Inl ''secret cannot be empty''"
    by (simp add: env_no_credential_def)
  have b1: "debug_info ((example_config False)\<lparr>api_key := []\<rparr>) \<longrightarrow>
      snd (fst (NewLogger (open_err env_ok) True fresh_Proc)) = None"
    by (simp add: example_config_def)
  have b2: "api_key ((example_config False)\<lparr>api_key := []\<rparr>) = []"
    by simp
  have c1: "debug_info (example_config True)"
    by (simp add: example_config_def)
  have c2: "snd (fst (NewLogger (open_err env_no_log) True fresh_Proc)) = Some ''logger not initialized''"
    by (simp add: NewLogger_def env_no_log_def example_Env_def fresh_Proc_def)
  from providerConfigure_result
         [of "(example_config False)\<lparr>clientSecret := []\<rparr>" env_no_credential fresh_Proc] a1 a2 a3
  have A: "\<exists>c. fst (providerConfigure env_no_credential ((example_config False)\<lparr>clientSecret := []\<rparr>) fresh_Proc)
           = Returned (Some c, None) \<and> aziclient c = None"
    by blast
  from providerConfigure_result
         [of "(example_config False)\<lparr>api_key := []\<rparr>" env_ok fresh_Proc] b1 b2
  have B: "\<exists>c e. fst (providerConfigure env_ok ((example_config False)\<lparr>api_key := []\<rparr>) fresh_Proc)
             = Returned (c, Some e)"
    by blast
  from providerConfigure_result
         [of "example_config True" env_no_log fresh_Proc "''logger not initialized''"] c1 c2
  have C: "fst (providerConfigure env_no_log (example_config True) fresh_Proc)
     = Exited ''Error initializing logger:logger not initialized''"
    by simp
  have a0: "\<not> debug_info ((example_config False)\<lparr>clientSecret := []\<rparr>)"
    by (simp add: example_config_def)
  from a0 a2 a3 A b2 B c1 c2 C show ?thesis
    by (intro conjI) simp_all
qed

end
